theory Spec2Isabelle
  imports Main "HOL-Library.AList" "HOL-Library.Sublist"
begin

section \<open>ThicketDB: the plant database of thicket\_db.py\<close>

text \<open>
  A shallow embedding of \<^verbatim>\<open>src/thicket_db.py\<close>. Python dictionaries are association
  lists in insertion order (Python keeps that order, and \<^verbatim>\<open>get_model\<close> and the view
  constructors iterate in it); every dictionary Python builds has pairwise distinct keys.
  Exceptions are values of \<open>py_error\<close>, returned as \<open>Inl\<close>. The file system, the logger
  and the worker processes are an explicit \<open>world\<close> that every effectful method takes
  and returns.

  The document has the schema that \<^verbatim>\<open>parse_model\<close> and \<^verbatim>\<open>initialize\<close> build:
  the records below list exactly the keys those two functions store. Documents of any
  other shape (which \<^verbatim>\<open>json.load\<close> could also return) are outside this model.
  A Python string is the list of the bytes of its UTF-8 encoding (a lone surrogate,
  which has none, is the three bytes that the error handler \<^verbatim>\<open>surrogatepass\<close> gives);
  locale tags are ASCII, where a Python code point is one byte. The contents of a file
  are its bytes.
\<close>

subsection \<open>Exceptions and dictionaries\<close>

datatype py_error =
  KeyError
  | TypeError
  | AttributeError
  | IndexError
  | UnboundLocalError
  | FileNotFoundError
  | UnicodeDecodeError
  | UnicodeEncodeError
  | ThicketDBOldSchemaError

type_synonym ('k, 'v) dict = "('k \<times> 'v) list"

text \<open>\<^verbatim>\<open>k in d\<close>\<close>

definition dict_in :: "'k \<Rightarrow> ('k, 'v) dict \<Rightarrow> bool" where
  "dict_in k d = (k \<in> set (map fst d))"

text \<open>\<^verbatim>\<open>d[k]\<close>: raises KeyError when the key is missing.\<close>

definition dict_get :: "('k, 'v) dict \<Rightarrow> 'k \<Rightarrow> py_error + 'v" where
  "dict_get d k = (case map_of d k of None \<Rightarrow> Inl KeyError | Some v \<Rightarrow> Inr v)"

text \<open>\<^verbatim>\<open>d[k] = v\<close>: an existing key keeps its position, a new key goes last.\<close>

definition dict_set :: "'k \<Rightarrow> 'v \<Rightarrow> ('k, 'v) dict \<Rightarrow> ('k, 'v) dict" where
  "dict_set k v d = AList.update k v d"

text \<open>\<^verbatim>\<open>d.update(other)\<close>: assigns the items of \<open>other\<close> one by one, in order.\<close>

definition dict_update :: "('k, 'v) dict \<Rightarrow> ('k, 'v) dict \<Rightarrow> ('k, 'v) dict" where
  "dict_update d other = foldl (\<lambda>acc (k, v). dict_set k v acc) d other"

text \<open>Sequencing of calls that may raise.\<close>

fun bind_r :: "py_error + 'a \<Rightarrow> ('a \<Rightarrow> py_error + 'b) \<Rightarrow> py_error + 'b" where
  "bind_r (Inl e) g = Inl e"
| "bind_r (Inr x) g = g x"

text \<open>A list comprehension whose element expression may raise: the first raise ends it.\<close>

fun map_r :: "('a \<Rightarrow> py_error + 'b) \<Rightarrow> 'a list \<Rightarrow> py_error + 'b list" where
  "map_r g [] = Inr []"
| "map_r g (x # xs) = bind_r (g x) (\<lambda>y. bind_r (map_r g xs) (\<lambda>ys. Inr (y # ys)))"

subsection \<open>The document\<close>

definition SCHEMA_VERSION :: int where
  "SCHEMA_VERSION = 2"

text \<open>A variant record, as \<^verbatim>\<open>parse_model\<close> builds \<^verbatim>\<open>v_rec\<close>.\<close>

record variant_rec =
  v_index :: nat
  v_seasons :: "string list"
  v_default_season :: string
  v_preview :: string

text \<open>A model record, as \<^verbatim>\<open>parse_model\<close> builds \<^verbatim>\<open>model\<close>.\<close>

record model_rec =
  m_name :: string
  m_filepath :: string
  m_md5 :: string
  m_default_variant :: string
  m_preview :: string
  m_variants :: "(string, variant_rec) dict"

record info_rec =
  sdk_version :: string
  sdk_major :: int
  sdk_minor :: int
  sdk_micro :: int
  schema_version :: int

type_synonym label_table = "(string, (string, string) dict) dict"

record document =
  info :: info_rec
  labels :: label_table
  models :: "(string, model_rec) dict"

text \<open>What \<^verbatim>\<open>parse_model\<close> returns and a worker prints: \<^verbatim>\<open>{"model": ..., "labels": ...}\<close>.\<close>

record parse_result =
  pr_model :: model_rec
  pr_labels :: label_table

text \<open>
  What \<^verbatim>\<open>json.load\<close> and \<^verbatim>\<open>json.loads\<close> do with bytes: return the decoded value,
  raise JSONDecodeError (the bytes are UTF-8 text that is not JSON, the empty text
  included), or raise UnicodeDecodeError (the bytes are not UTF-8).
\<close>

datatype 'a decoded =
  Value 'a
  | Raises_JSONDecodeError
  | Raises_UnicodeDecodeError

text \<open>
  The value decoded from a worker's output, by what lines 238 and 239 of \<^verbatim>\<open>build\<close> do
  with it. \<open>Well_formed\<close> is a record as \<^verbatim>\<open>parse_model\<close> prints it. On
  \<open>Raises_at_model e\<close> the subscript \<^verbatim>\<open>m_rec["model"]\<close> raises \<open>e\<close>: KeyError for a
  dictionary without that key, TypeError for a value that is no dictionary. On
  \<open>Raises_at_labels m e\<close> the model \<open>m\<close> is stored and \<^verbatim>\<open>update_labels(m_rec["labels"])\<close>
  then raises \<open>e\<close> with the label table unchanged: KeyError for a missing key, TypeError
  for labels that cannot be iterated. Other decodable values are outside this model.
\<close>

datatype m_rec_value =
  Well_formed parse_result
  | Raises_at_model py_error
  | Raises_at_labels model_rec py_error

text \<open>
  What \<^verbatim>\<open>json.dump(..., ensure_ascii=False)\<close> into a file opened with the encoding
  UTF-8 does: write the whole text, or write the text up to a string that holds a lone
  surrogate and raise UnicodeEncodeError there.
\<close>

datatype dump_result =
  Dumped string
  | UnicodeEncodeError_after string

text \<open>The Laubwerk SDK module \<^verbatim>\<open>lbw\<close>, as far as \<^verbatim>\<open>initialize\<close> reads it.\<close>

record lbw_sdk =
  lbw_version :: string
  lbw_major :: int
  lbw_minor :: int
  lbw_micro :: int

subsection \<open>The world: files, the logger, worker processes\<close>

datatype level = DEBUG | INFO | WARNING | ERROR | CRITICAL

text \<open>One constructor per logging call of the source, with the values it formats.\<close>

datatype message =
  Unknown_database_schema_version
  | JSONDecodeError_while_loading_database
  | Parsing_models nat nat
  | Parsing string
  | Added string
  | JSONDecodeError_while_parsing string
  | Files_remaining nat
  | Jobs_still_running nat
  | Processed nat nat

text \<open>
  \<open>Launched f\<close> is the \<^verbatim>\<open>Popen\<close> call for file \<open>f\<close>; \<open>Collected f\<close> is the
  \<^verbatim>\<open>communicate()\<close> call that waits for that process and reads its output.
\<close>

datatype proc_event = Launched string | Collected string

record world =
  files :: "string \<rightharpoonup> string"
  log :: "(level \<times> message) list"
  procs :: "proc_event list"

definition logger :: "level \<Rightarrow> message \<Rightarrow> world \<Rightarrow> world" where
  "logger lv msg w = w\<lparr>log := log w @ [(lv, msg)]\<rparr>"

subsection \<open>class ThicketDB\<close>

text \<open>
  The object's attributes; \<open>db = None\<close> is an object on which the attribute \<^verbatim>\<open>_db\<close>
  was never assigned. \<open>loc\<close> is the attribute \<^verbatim>\<open>locale\<close>.
\<close>

record ThicketDB =
  db_filename :: string
  loc :: string
  python :: string
  db :: "document option"

text \<open>\<^verbatim>\<open>s.replace("_", "-")\<close>\<close>

definition replace_underscore :: "string \<Rightarrow> string" where
  "replace_underscore s = map (\<lambda>c. if c = CHR ''_'' then CHR ''-'' else c) s"

definition initialize :: "lbw_sdk \<Rightarrow> ThicketDB \<Rightarrow> ThicketDB" where
  "initialize lbw self =
     self\<lparr>db := Some \<lparr>info = \<lparr>sdk_version = lbw_version lbw, sdk_major = lbw_major lbw,
                                 sdk_minor = lbw_minor lbw, sdk_micro = lbw_micro lbw,
                                 schema_version = SCHEMA_VERSION\<rparr>,
                         labels = [], models = []\<rparr>\<rparr>"

text \<open>
  \<^verbatim>\<open>save\<close>: \<^verbatim>\<open>open(..., "w")\<close> truncates the file before \<^verbatim>\<open>self._db\<close> is read, so
  saving an object without a document leaves an empty file and raises.
  \<open>json_dump\<close> is Python's \<^verbatim>\<open>json.dump\<close> (with the source's options) as a function
  from the document to what is written. When it raises, the \<^verbatim>\<open>with\<close> statement closes
  the file, which then holds the text written so far.
\<close>

definition save :: "(document \<Rightarrow> dump_result) \<Rightarrow> ThicketDB \<Rightarrow> world \<Rightarrow> (py_error + unit) \<times> world" where
  "save json_dump self w =
     (case db self of
        None \<Rightarrow> (Inl AttributeError, w\<lparr>files := (files w)(db_filename self \<mapsto> [])\<rparr>)
      | Some d \<Rightarrow>
          (case json_dump d of
             Dumped text \<Rightarrow> (Inr (), w\<lparr>files := (files w)(db_filename self \<mapsto> text)\<rparr>)
           | UnicodeEncodeError_after text \<Rightarrow>
               (Inl UnicodeEncodeError, w\<lparr>files := (files w)(db_filename self \<mapsto> text)\<rparr>)))"

text \<open>
  \<^verbatim>\<open>ThicketDB.__init__\<close>. \<open>json_load\<close> is Python's \<^verbatim>\<open>json.load\<close> on the bytes of the
  file, read through \<^verbatim>\<open>open(..., encoding="utf-8")\<close>. The handler of JSONDecodeError logs
  and returns, so the constructor hands back the object, whose \<^verbatim>\<open>_db\<close> was never
  assigned. No handler catches UnicodeDecodeError: it reaches the caller, and nothing is
  logged.
\<close>

definition ThicketDB_init ::
  "(string \<Rightarrow> document decoded) \<Rightarrow> (document \<Rightarrow> dump_result) \<Rightarrow> lbw_sdk \<Rightarrow>
   string \<Rightarrow> string \<Rightarrow> string \<Rightarrow> bool \<Rightarrow> world \<Rightarrow> (py_error + ThicketDB) \<times> world" where
  "ThicketDB_init json_load json_dump lbw filename locale_arg python_arg create w =
     (let self = \<lparr>db_filename = filename, loc = replace_underscore locale_arg,
                  python = python_arg, db = None\<rparr>
      in case files w filename of
           None \<Rightarrow>
             (if create then
                (let self1 = initialize lbw self
                 in case save json_dump self1 w of
                      (Inl e, w1) \<Rightarrow> (Inl e, w1)
                    | (Inr u, w1) \<Rightarrow> (Inr self1, w1))
              else (Inl FileNotFoundError, w))
         | Some bytes \<Rightarrow>
             (case json_load bytes of
                Raises_UnicodeDecodeError \<Rightarrow> (Inl UnicodeDecodeError, w)
              | Raises_JSONDecodeError \<Rightarrow>
                  (Inr self, logger CRITICAL JSONDecodeError_while_loading_database w)
              | Value d \<Rightarrow>
                  (if schema_version (info d) < SCHEMA_VERSION
                   then (Inl ThicketDBOldSchemaError, logger WARNING Unknown_database_schema_version w)
                   else (Inr (self\<lparr>db := Some d\<rparr>), w))))"

definition update_labels :: "label_table \<Rightarrow> ThicketDB \<Rightarrow> py_error + ThicketDB" where
  "update_labels new_labels self =
     (case db self of
        None \<Rightarrow> Inl AttributeError
      | Some d \<Rightarrow> Inr (self\<lparr>db := Some (d\<lparr>labels := dict_update (labels d) new_labels\<rparr>)\<rparr>))"

text \<open>
  \<^verbatim>\<open>get_label(key, locale=None)\<close>. The argument is \<open>None\<close> or a string; \<^verbatim>\<open>if locale:\<close>
  is false for \<open>None\<close> and for the empty string. \<^verbatim>\<open>locale[:2]\<close> is \<open>take 2\<close>. Only
  KeyError is caught.
\<close>

definition get_label :: "ThicketDB \<Rightarrow> string \<Rightarrow> string option \<Rightarrow> py_error + string" where
  "get_label self key locale_arg =
     (let l = (case locale_arg of
                 None \<Rightarrow> loc self
               | Some a \<Rightarrow> if a \<noteq> [] then replace_underscore a else loc self)
      in case db self of
           None \<Rightarrow> Inl AttributeError
         | Some d \<Rightarrow>
             (case dict_get (labels d) key of
                Inl e \<Rightarrow> Inr key
              | Inr tbl \<Rightarrow>
                  if dict_in l tbl then
                    (case dict_get tbl l of Inl e \<Rightarrow> Inr key | Inr s \<Rightarrow> Inr s)
                  else if dict_in (take 2 l) tbl then
                    (case dict_get tbl (take 2 l) of Inl e \<Rightarrow> Inr key | Inr s \<Rightarrow> Inr s)
                  else Inr key))"

definition model_count :: "ThicketDB \<Rightarrow> py_error + nat" where
  "model_count self = (case db self of None \<Rightarrow> Inl AttributeError | Some d \<Rightarrow> Inr (length (models d)))"

subsection \<open>The views\<close>

record season_view =
  s_name :: string
  s_label :: string

record variant_view =
  vv_name :: string
  vv_label :: string
  vv_seasons :: "season_view list"
  vv_default_season :: season_view
  vv_preview :: string

record model_view =
  mv_name :: string
  mv_md5 :: string
  mv_filepath :: string
  mv_label :: string
  mv_variants :: "variant_view list"
  mv_default_variant :: variant_view
  mv_preview :: string

definition DBSeason :: "ThicketDB \<Rightarrow> string \<Rightarrow> py_error + season_view" where
  "DBSeason self name =
     bind_r (get_label self name None) (\<lambda>l. Inr \<lparr>s_name = name, s_label = l\<rparr>)"

definition DBVariant :: "ThicketDB \<Rightarrow> string \<Rightarrow> variant_rec \<Rightarrow> string \<Rightarrow> py_error + variant_view" where
  "DBVariant self name v_rec model_preview =
     bind_r (get_label self name None) (\<lambda>l.
     bind_r (map_r (DBSeason self) (v_seasons v_rec)) (\<lambda>ss.
     bind_r (DBSeason self (v_default_season v_rec)) (\<lambda>ds.
       Inr \<lparr>vv_name = name, vv_label = l, vv_seasons = ss, vv_default_season = ds,
            vv_preview = (if v_preview v_rec = [] then model_preview else v_preview v_rec)\<rparr>)))"

definition DBModel :: "ThicketDB \<Rightarrow> string \<Rightarrow> py_error + model_view" where
  "DBModel self name =
     (case db self of
        None \<Rightarrow> Inl AttributeError
      | Some d \<Rightarrow>
          bind_r (dict_get (models d) name) (\<lambda>m_rec.
          bind_r (get_label self name None) (\<lambda>l.
          bind_r (map_r (\<lambda>v. bind_r (dict_get (m_variants m_rec) v)
                                (\<lambda>v_rec. DBVariant self v v_rec (m_preview m_rec)))
                        (map fst (m_variants m_rec))) (\<lambda>vs.
          bind_r (dict_get (m_variants m_rec) (m_default_variant m_rec)) (\<lambda>dv_rec.
          bind_r (DBVariant self (m_default_variant m_rec) dv_rec (m_preview m_rec)) (\<lambda>dv.
            Inr \<lparr>mv_name = name, mv_md5 = m_md5 m_rec, mv_filepath = m_filepath m_rec,
                 mv_label = l, mv_variants = vs, mv_default_variant = dv,
                 mv_preview = m_preview m_rec\<rparr>))))))"

text \<open>
  \<^verbatim>\<open>get_model(filepath=None, name=None)\<close>. Both arguments are \<open>None\<close> or a string, and
  \<^verbatim>\<open>if name:\<close> is false for \<open>None\<close> and for the empty string. The scan over the models
  has no \<^verbatim>\<open>break\<close>: the last model with the file path wins. The result \<open>Inr None\<close> is
  Python's \<^verbatim>\<open>return None\<close>.
\<close>

definition scan_filepath :: "(string, model_rec) dict \<Rightarrow> string \<Rightarrow> string option \<Rightarrow> string option" where
  "scan_filepath ms filepath name =
     foldl (\<lambda>acc (n, m_rec). if m_filepath m_rec = filepath then Some n else acc) name ms"

definition get_model :: "ThicketDB \<Rightarrow> string option \<Rightarrow> string option \<Rightarrow> py_error + model_view option" where
  "get_model self filepath name =
     (case db self of
        None \<Rightarrow>
          (if (name \<noteq> None \<and> name \<noteq> Some []) \<or> (name = None \<and> filepath \<noteq> None \<and> filepath \<noteq> Some [])
           then Inl AttributeError else Inr None)
      | Some d \<Rightarrow>
          (let name1 = (if name \<noteq> None \<and> name \<noteq> Some [] \<and> \<not> dict_in (the name) (models d)
                        then None else name);
               name2 = (if name1 = None \<and> filepath \<noteq> None \<and> filepath \<noteq> Some []
                        then scan_filepath (models d) (the filepath) name1 else name1)
           in if name2 \<noteq> None \<and> name2 \<noteq> Some []
              then bind_r (DBModel self (the name2)) (\<lambda>v. Inr (Some v))
              else Inr None))"

text \<open>
  \<^verbatim>\<open>add_model(filepath)\<close>. \<open>m_rec\<close> is what \<^verbatim>\<open>ThicketDB.parse_model(filepath)\<close> returned: a
  dictionary with the two keys \<^verbatim>\<open>"model"\<close> and \<^verbatim>\<open>"labels"\<close>. The assignment evaluates
  \<^verbatim>\<open>m_rec["model"]\<close>, then \<^verbatim>\<open>self._db["models"]\<close>, then \<^verbatim>\<open>m_rec["name"]\<close>, a key the
  dictionary does not have: the method raises before it stores anything.
\<close>

definition add_model :: "parse_result \<Rightarrow> ThicketDB \<Rightarrow> py_error + ThicketDB" where
  "add_model m_rec self = (case db self of None \<Rightarrow> Inl AttributeError | Some d \<Rightarrow> Inl KeyError)"

subsection \<open>build\<close>

text \<open>
  The local variables of \<^verbatim>\<open>build\<close> together with the object and the world. A job (a
  \<^verbatim>\<open>Popen\<close> object) is identified by the file it was started for; \<open>f_var\<close> is the
  variable \<^verbatim>\<open>f\<close>, unbound until the first launch.
\<close>

record build_state =
  self_db :: ThicketDB
  wrld :: world
  model_files :: "string list"
  jobs :: "string list"
  f_var :: "string option"

definition num_jobs_of :: "nat option \<Rightarrow> nat" where
  "num_jobs_of cpu_count = (case cpu_count of None \<Rightarrow> 4 | Some n \<Rightarrow> if n = 0 then 4 else n)"

text \<open>
  The inner loop. \<^verbatim>\<open>model_files.pop()\<close> removes and returns the last element of the
  list; \<^verbatim>\<open>jobs.append(job)\<close> adds at the right end of the deque.
\<close>

function top_up :: "nat \<Rightarrow> build_state \<Rightarrow> build_state" where
  "top_up num_jobs s =
     (if length (jobs s) < num_jobs \<and> length (model_files s) > 0 then
        (let f = last (model_files s)
         in top_up num_jobs
              (s\<lparr>model_files := butlast (model_files s),
                 f_var := Some f,
                 wrld := (logger DEBUG (Parsing f) (wrld s))\<lparr>procs := procs (wrld s) @ [Launched f]\<rparr>,
                 jobs := jobs s @ [f]\<rparr>))
      else s)"
  by pat_completeness auto
termination
  by (relation "measure (\<lambda>(n, s). length (model_files s))") auto

text \<open>
  The body after \<^verbatim>\<open>jobs.popleft()\<close>: wait for \<open>job\<close> and merge its result.
  \<open>worker f\<close> is what \<^verbatim>\<open>json.loads\<close> does with the output (bytes) of the process
  started for \<open>f\<close>. Only JSONDecodeError is caught: the handler logs and the loop goes on;
  it formats the variable \<^verbatim>\<open>f\<close> (the file launched last), not the job's file. Every
  other exception leaves \<^verbatim>\<open>build\<close>.
\<close>

definition collect ::
  "(string \<Rightarrow> m_rec_value decoded) \<Rightarrow> string \<Rightarrow> build_state \<Rightarrow> (py_error + unit) \<times> build_state" where
  "collect worker job s =
     (let s1 = s\<lparr>wrld := (wrld s)\<lparr>procs := procs (wrld s) @ [Collected job]\<rparr>\<rparr>
      in case worker job of
           Raises_UnicodeDecodeError \<Rightarrow> (Inl UnicodeDecodeError, s1)
         | Raises_JSONDecodeError \<Rightarrow>
             (case f_var s1 of
                None \<Rightarrow> (Inl UnboundLocalError, s1)
              | Some f \<Rightarrow> (Inr (), s1\<lparr>wrld := logger ERROR (JSONDecodeError_while_parsing f) (wrld s1)\<rparr>))
         | Value (Raises_at_model e) \<Rightarrow> (Inl e, s1)
         | Value (Raises_at_labels m e) \<Rightarrow>
             (case db (self_db s1) of
                None \<Rightarrow> (Inl AttributeError, s1)
              | Some d \<Rightarrow>
                  (Inl e, s1\<lparr>self_db := (self_db s1)\<lparr>db := Some (d\<lparr>models :=
                                  dict_set (m_name m) m (models d)\<rparr>)\<rparr>\<rparr>))
         | Value (Well_formed m_rec) \<Rightarrow>
             (case db (self_db s1) of
                None \<Rightarrow> (Inl AttributeError, s1)
              | Some d \<Rightarrow>
                  (let self1 = (self_db s1)\<lparr>db := Some (d\<lparr>models :=
                                  dict_set (m_name (pr_model m_rec)) (pr_model m_rec) (models d)\<rparr>)\<rparr>
                   in case update_labels (pr_labels m_rec) self1 of
                        Inl e \<Rightarrow> (Inl e, s1\<lparr>self_db := self1\<rparr>)
                      | Inr self2 \<Rightarrow>
                          (Inr (), s1\<lparr>self_db := self2,
                                      wrld := logger INFO (Added (m_name (pr_model m_rec))) (wrld s1)\<rparr>))))"

declare top_up.simps [simp del]

lemma top_up_stop: "\<not> (length (jobs s) < n \<and> model_files s \<noteq> []) \<Longrightarrow> top_up n s = s"
  by (subst top_up.simps) auto

lemma top_up_step:
  "length (jobs s) < n \<Longrightarrow> model_files s \<noteq> [] \<Longrightarrow>
   top_up n s =
     top_up n (s\<lparr>model_files := butlast (model_files s),
                 f_var := Some (last (model_files s)),
                 wrld := (logger DEBUG (Parsing (last (model_files s))) (wrld s))
                           \<lparr>procs := procs (wrld s) @ [Launched (last (model_files s))]\<rparr>,
                 jobs := jobs s @ [last (model_files s)]\<rparr>)"
  by (subst top_up.simps) (simp add: Let_def)

lemma top_up_total:
  "length (model_files (top_up n s)) + length (jobs (top_up n s)) =
   length (model_files s) + length (jobs s)"
proof (induction n s rule: top_up.induct)
  case (1 n s)
  show ?case
  proof (cases "length (jobs s) < n \<and> model_files s \<noteq> []")
    case True
    then have c: "length (jobs s) < n \<and> 0 < length (model_files s)" by simp
    have "length (butlast (model_files s)) + length (jobs s @ [last (model_files s)]) =
          length (model_files s) + length (jobs s)"
      using True by (cases "model_files s" rule: rev_cases) auto
    with True "1.IH" [OF c refl] show ?thesis
      by (simp add: top_up_step)
  next
    case False
    then show ?thesis by (simp add: top_up_stop)
  qed
qed

lemma collect_queues:
  "model_files (snd (collect worker job s)) = model_files s \<and> jobs (snd (collect worker job s)) = jobs s"
  by (simp add: collect_def update_labels_def Let_def
      split: option.splits sum.splits decoded.splits m_rec_value.splits)

text \<open>
  The outer loop. \<^verbatim>\<open>jobs.popleft()\<close> takes the left end of the deque and raises
  IndexError on an empty one.
\<close>

function build_loop ::
  "nat \<Rightarrow> (string \<Rightarrow> m_rec_value decoded) \<Rightarrow> build_state \<Rightarrow> (py_error + unit) \<times> build_state" where
  "build_loop num_jobs worker s =
     (if length (model_files s) > 0 \<or> length (jobs s) > 0 then
        (let s1 = top_up num_jobs s
         in case jobs s1 of
              [] \<Rightarrow> (Inl IndexError, s1)
            | job # rest \<Rightarrow>
                (case collect worker job (s1\<lparr>jobs := rest\<rparr>) of
                   (Inl e, s2) \<Rightarrow> (Inl e, s2)
                 | (Inr u, s2) \<Rightarrow> build_loop num_jobs worker s2))
      else (Inr (), s))"
  by pat_completeness auto
termination
proof (relation "measure (\<lambda>(n, w, s). length (model_files s) + length (jobs s))", goal_cases)
  case 1
  show ?case by simp
next
  case (2 n worker s s1 job rest res s2 u)
  have "model_files s2 = model_files (s1\<lparr>jobs := rest\<rparr>) \<and> jobs s2 = jobs (s1\<lparr>jobs := rest\<rparr>)"
    using collect_queues [of worker job "s1\<lparr>jobs := rest\<rparr>"] 2 by (metis snd_conv)
  moreover have "length (model_files s1) + length (jobs s1) = length (model_files s) + length (jobs s)"
    using 2 top_up_total [of n s] by simp
  ultimately show ?case using 2 by simp
qed

declare build_loop.simps [simp del]

text \<open>
  \<^verbatim>\<open>build(models_dir, sdk_path)\<close>. \<open>glob_result\<close> is the list \<^verbatim>\<open>glob.glob\<close> returns for
  the models directory and \<open>cpu_count\<close> is what \<^verbatim>\<open>os.cpu_count()\<close> returns. The method
  returns nothing; the tally is the last logging call, \<open>Processed\<close>. An exception that
  leaves the loop or \<^verbatim>\<open>save\<close> leaves \<^verbatim>\<open>build\<close>.
\<close>

definition build ::
  "(document \<Rightarrow> dump_result) \<Rightarrow> lbw_sdk \<Rightarrow> string list \<Rightarrow> nat option \<Rightarrow>
   (string \<Rightarrow> m_rec_value decoded) \<Rightarrow>
   ThicketDB \<Rightarrow> world \<Rightarrow> (py_error + unit) \<times> ThicketDB \<times> world" where
  "build json_dump lbw glob_result cpu_count worker self w =
     (let self1 = initialize lbw self;
          num_models = length glob_result;
          num_jobs = num_jobs_of cpu_count;
          w1 = logger INFO (Parsing_models num_models num_jobs) w
      in case build_loop num_jobs worker
                \<lparr>self_db = self1, wrld = w1, model_files = glob_result, jobs = [], f_var = None\<rparr> of
           (Inl e, s) \<Rightarrow> (Inl e, self_db s, wrld s)
         | (Inr u, s) \<Rightarrow>
             (let w2 = (if length (model_files s) > 0
                        then logger ERROR (Files_remaining (length (model_files s))) (wrld s)
                        else wrld s);
                  w3 = (if length (jobs s) > 0
                        then logger ERROR (Jobs_still_running (length (jobs s))) w2
                        else w2)
              in case save json_dump (self_db s) w3 of
                   (Inl e, w4) \<Rightarrow> (Inl e, self_db s, w4)
                 | (Inr u, w4) \<Rightarrow>
                     (case model_count (self_db s) of
                        Inl e \<Rightarrow> (Inl e, self_db s, w4)
                      | Inr n \<Rightarrow> (Inr (), self_db s, logger INFO (Processed n num_models) w4))))"

subsection \<open>Observations used by the properties\<close>

text \<open>The display string stored for a (key, locale) pair, if any.\<close>

definition label_entry :: "label_table \<Rightarrow> string \<Rightarrow> string \<Rightarrow> string option" where
  "label_entry t key l = (case map_of t key of None \<Rightarrow> None | Some tbl \<Rightarrow> map_of tbl l)"

text \<open>
  The resolver as the specification words it (section 4.1), for comparison with
  \<open>get_label\<close>: the fallback key is the primary subtag, the text before the first hyphen.
\<close>

definition primary_subtag :: "string \<Rightarrow> string" where
  "primary_subtag l = takeWhile (\<lambda>c. c \<noteq> CHR ''-'') l"

definition resolve_spec :: "label_table \<Rightarrow> string \<Rightarrow> string \<Rightarrow> string" where
  "resolve_spec t key locale_arg =
     (let l = replace_underscore locale_arg
      in case map_of t key of
           None \<Rightarrow> key
         | Some tbl \<Rightarrow>
             (case map_of tbl l of
                Some s \<Rightarrow> s
              | None \<Rightarrow> (case map_of tbl (primary_subtag l) of Some s \<Rightarrow> s | None \<Rightarrow> key)))"

text \<open>The files launched and collected in a sequence of process events, in order.\<close>

definition launched :: "proc_event list \<Rightarrow> string list" where
  "launched es = concat (map (\<lambda>e. case e of Launched f \<Rightarrow> [f] | Collected f \<Rightarrow> []) es)"

definition collected :: "proc_event list \<Rightarrow> string list" where
  "collected es = concat (map (\<lambda>e. case e of Launched f \<Rightarrow> [] | Collected f \<Rightarrow> [f]) es)"

text \<open>The number of processes started and not yet waited for.\<close>

definition in_flight :: "proc_event list \<Rightarrow> nat" where
  "in_flight es = length (launched es) - length (collected es)"

subsection \<open>Concrete data for the examples\<close>

definition ex_info :: info_rec where
  "ex_info = \<lparr>sdk_version = ''1.0.33'', sdk_major = 1, sdk_minor = 0, sdk_micro = 33,
              schema_version = 2\<rparr>"

definition ex_store :: "label_table \<Rightarrow> ThicketDB" where
  "ex_store t = \<lparr>db_filename = ''thicket.db'', loc = ''en-US'', python = ''python3'',
                db = Some \<lparr>info = ex_info, labels = t, models = []\<rparr>\<rparr>"

definition ex_unset :: ThicketDB where
  "ex_unset = \<lparr>db_filename = ''thicket.db'', loc = ''en-US'', python = ''python3'', db = None\<rparr>"

text \<open>
  A document with a label table and a model, an object that holds it, and a label table
  whose display string is the lone surrogate U+D800.
\<close>

definition ex_variant :: variant_rec where
  "ex_variant = \<lparr>v_index = 0, v_seasons = [''summer'', ''winter''], v_default_season = ''summer'',
                 v_preview = []\<rparr>"

text \<open>A model with the single variant \<open>young\<close> and the given default variant.\<close>

definition ex_model :: "string \<Rightarrow> string \<Rightarrow> model_rec" where
  "ex_model name default_variant =
     \<lparr>m_name = name, m_filepath = ''/plants/'' @ name @ ''.lbw.gz'', m_md5 = ''d41d8cd9'',
      m_default_variant = default_variant, m_preview = ''/plants/'' @ name @ ''.png'',
      m_variants = [(''young'', ex_variant)]\<rparr>"

definition ex_full_doc :: document where
  "ex_full_doc = \<lparr>info = ex_info, labels = [(''Acer'', [(''en'', ''Maple''), (''de'', ''Ahorn'')])],
                  models = [(''Acer'', ex_model ''Acer'' ''young'')]\<rparr>"



definition ex_doc :: "int \<Rightarrow> document" where
  "ex_doc v = \<lparr>info = ex_info\<lparr>schema_version := v\<rparr>, labels = [], models = []\<rparr>"

text \<open>
  Whether a string holds a lone surrogate (U+D800 to U+DFFF: the byte ED followed by a
  byte from A0 to BF), and all the strings of a document.
\<close>

fun lone_surrogate_in :: "string \<Rightarrow> bool" where
  "lone_surrogate_in (a # b # s) =
     ((a = CHR 0xED \<and> (0xA0 :: nat) \<le> of_char b \<and> (of_char b :: nat) \<le> 0xBF) \<or> lone_surrogate_in (b # s))"
| "lone_surrogate_in s = False"

definition document_strings :: "document \<Rightarrow> string list" where
  "document_strings d =
     sdk_version (info d) #
     concat (map (\<lambda>(k, tbl). k # concat (map (\<lambda>(l, t). [l, t]) tbl)) (labels d)) @
     concat (map (\<lambda>(n, m). [n, m_name m, m_filepath m, m_md5 m, m_default_variant m, m_preview m] @
                   concat (map (\<lambda>(v, r). v # v_default_season r # v_preview r # v_seasons r)
                            (m_variants m)))
              (models d))"

text \<open>
  Stand-ins for \<^verbatim>\<open>json.load\<close> and \<^verbatim>\<open>json.dump\<close> in the examples. Four texts decode,
  to the documents of schema versions 1, 2 and 3 and to \<open>ex_full_doc\<close>; bytes with FF among
  them (never a byte of UTF-8) are not UTF-8; every other text is not JSON. Dumping fails
  on a document with a lone surrogate in one of its strings.
\<close>

definition ex_json_load :: "string \<Rightarrow> document decoded" where
  "ex_json_load bytes =
     (if CHR 0xFF \<in> set bytes then Raises_UnicodeDecodeError
      else if bytes = ''schema 1'' then Value (ex_doc 1)
      else if bytes = ''schema 2'' then Value (ex_doc 2)
      else if bytes = ''schema 3'' then Value (ex_doc 3)
      else if bytes = ''full'' then Value ex_full_doc
      else Raises_JSONDecodeError)"

definition ex_json_dump :: "document \<Rightarrow> dump_result" where
  "ex_json_dump d =
     (if list_ex lone_surrogate_in (document_strings d) then UnicodeEncodeError_after ''{''
      else if d = ex_full_doc then Dumped ''full''
      else if schema_version (info d) = 1 then Dumped ''schema 1''
      else if schema_version (info d) = 3 then Dumped ''schema 3''
      else Dumped ''schema 2'')"

definition ex_lbw :: lbw_sdk where
  "ex_lbw = \<lparr>lbw_version = ''1.0.33'', lbw_major = 1, lbw_minor = 0, lbw_micro = 33\<rparr>"

text \<open>A world whose only file is the database, holding \<open>bytes\<close>.\<close>

definition ex_world :: "string \<Rightarrow> world" where
  "ex_world bytes = \<lparr>files = [''thicket.db'' \<mapsto> bytes], log = [], procs = []\<rparr>"

definition ex_model_store :: "model_rec \<Rightarrow> ThicketDB" where
  "ex_model_store m = \<lparr>db_filename = ''thicket.db'', loc = ''en-US'', python = ''python3'',
      db = Some \<lparr>info = ex_info, labels = [], models = [(m_name m, m)]\<rparr>\<rparr>"

subsection \<open>The effect of the scheduler, stated apart from the loop\<close>

text \<open>
  The worker outputs on which \<open>collect\<close> raises, so that the exception leaves \<open>build\<close>.
\<close>

fun aborts :: "m_rec_value decoded \<Rightarrow> bool" where
  "aborts (Value (Well_formed m_rec)) = False"
| "aborts Raises_JSONDecodeError = False"
| "aborts Raises_UnicodeDecodeError = True"
| "aborts (Value (Raises_at_model e)) = True"
| "aborts (Value (Raises_at_labels m e)) = True"

text \<open>
  What collecting one job does to the object when the loop goes on: nothing for output
  that is not JSON, and for a well-formed record the model is stored under its name and
  the labels are merged.
\<close>

definition merge_result :: "ThicketDB \<Rightarrow> m_rec_value decoded \<Rightarrow> ThicketDB" where
  "merge_result self r =
     (case r of
        Value (Well_formed m_rec) \<Rightarrow>
          (case db self of
             None \<Rightarrow> self
           | Some d \<Rightarrow>
               self\<lparr>db := Some (d\<lparr>models := dict_set (m_name (pr_model m_rec)) (pr_model m_rec) (models d),
                                  labels := dict_update (labels d) (pr_labels m_rec)\<rparr>)\<rparr>)
      | _ \<Rightarrow> self)"

text \<open>The name of the model in a worker output that is a well-formed record.\<close>

definition well_formed_name :: "m_rec_value decoded \<Rightarrow> string option" where
  "well_formed_name r =
     (case r of Value (Well_formed m_rec) \<Rightarrow> Some (m_name (pr_model m_rec)) | _ \<Rightarrow> None)"

text \<open>
  A bounded first-in-first-out queue as an acceptor of process events: a launch needs a
  free slot among \<open>n\<close> and joins at the back, a collect takes the job at the front.
\<close>

fun replay :: "nat \<Rightarrow> string list \<Rightarrow> proc_event list \<Rightarrow> bool" where
  "replay n q [] = True"
| "replay n q (Launched f # es) = (length q < n \<and> replay n (q @ [f]) es)"
| "replay n q (Collected f # es) = (case q of [] \<Rightarrow> False | j # rest \<Rightarrow> j = f \<and> replay n rest es)"


text \<open>The process events that one call of \<open>build\<close> adds to the world.\<close>

definition build_events ::
  "(document \<Rightarrow> dump_result) \<Rightarrow> lbw_sdk \<Rightarrow> string list \<Rightarrow> nat option \<Rightarrow>
   (string \<Rightarrow> m_rec_value decoded) \<Rightarrow> ThicketDB \<Rightarrow> world \<Rightarrow> proc_event list" where
  "build_events json_dump lbw glob_result cpu_count worker self w =
     drop (length (procs w)) (procs (snd (snd (build json_dump lbw glob_result cpu_count worker self w))))"

text \<open>
  A worker for the examples: the output for the file \<open>bad\<close> is not JSON, the output for
  the file \<open>binary\<close> is not UTF-8, and every other file yields a model named after it.
\<close>

definition ex_worker :: "string \<Rightarrow> m_rec_value decoded" where
  "ex_worker f =
     (if f = ''bad'' then Raises_JSONDecodeError
      else if f = ''binary'' then Raises_UnicodeDecodeError
      else Value (Well_formed \<lparr>pr_model = ex_model f ''young'', pr_labels = [(f, [(''en'', f)])]\<rparr>))"

section \<open>Properties\<close>

subsection \<open>Dictionaries\<close>

lemma dict_in_map_of: "dict_in k d \<longleftrightarrow> map_of d k \<noteq> None"
  by (simp add: dict_in_def map_of_eq_None_iff)

subsection \<open>Label resolution\<close>

text \<open>
  C5, as amended. For a key that has an entry in the label table and a non-empty locale
  argument, \<open>get_label\<close> returns the string stored for the normalized locale
  (underscores replaced by hyphens); if there is none, the string stored for the first two
  characters of the normalized locale; if there is none either, the key. The fallback key
  is the two-character prefix, not the primary subtag.
\<close>

theorem get_label_fallback:
  assumes "db self = Some d" and "map_of (labels d) key = Some tbl" and "a \<noteq> []"
  shows "get_label self key (Some a) =
           Inr (case map_of tbl (replace_underscore a) of
                  Some s \<Rightarrow> s
                | None \<Rightarrow> (case map_of tbl (take 2 (replace_underscore a)) of
                             Some s \<Rightarrow> s
                           | None \<Rightarrow> key))"
  using assms
  by (auto simp: get_label_def dict_get_def dict_in_map_of Let_def split: option.splits)

theorem get_label_fallback_witness:
  "get_label (ex_store [(''Acer'', [(''en-US'', ''A''), (''en'', ''B'')])]) ''Acer'' (Some ''en_GB'') = Inr ''B''"
  using get_label_fallback [of "ex_store [(''Acer'', [(''en-US'', ''A''), (''en'', ''B'')])]"
      "\<lparr>info = ex_info, labels = [(''Acer'', [(''en-US'', ''A''), (''en'', ''B'')])], models = []\<rparr>"
      "''Acer''" "[(''en-US'', ''A''), (''en'', ''B'')]" "''en_GB''"]
  by (simp add: ex_store_def replace_underscore_def)

text \<open>
  C5 as stated fails: with a label stored under the three-letter tag \<open>fil\<close>, the locale
  \<open>fil-PH\<close> resolves to the key, because \<open>get_label\<close> looks up \<open>fi\<close>; the resolver of
  the specification returns the stored label.
\<close>

theorem get_label_primary_subtag_counterexample:
  "get_label (ex_store [(''Acer'', [(''fil'', ''Arce'')])]) ''Acer'' (Some ''fil-PH'') = Inr ''Acer'' \<and>
   resolve_spec [(''Acer'', [(''fil'', ''Arce'')])] ''Acer'' ''fil-PH'' = ''Arce''"
  by (simp add: get_label_def ex_store_def dict_get_def dict_in_def replace_underscore_def
      resolve_spec_def primary_subtag_def)

text \<open>
  C6, as amended. On an object whose document is set, \<open>get_label\<close> does not raise for any
  key and locale argument, and returns the key when the key has no entry in the label
  table. Its result is non-empty whenever the key is non-empty and no display string
  stored for the key is empty.
\<close>

theorem get_label_total:
  assumes "db self = Some d"
  shows "(\<exists>s. get_label self key la = Inr s) \<and>
         (map_of (labels d) key = None \<longrightarrow> get_label self key la = Inr key) \<and>
         (key \<noteq> [] \<and> (\<forall>tbl. map_of (labels d) key = Some tbl \<longrightarrow> [] \<notin> snd ` set tbl)
            \<longrightarrow> get_label self key la \<noteq> Inr [])"
  using assms
  apply (auto simp: get_label_def dict_get_def dict_in_map_of Let_def split: option.splits)
   apply (metis map_of_SomeD snd_conv image_eqI)+
  done

theorem get_label_total_witness:
  "get_label (ex_store [(''Acer'', [(''en'', ''Maple'')])]) ''Quercus'' (Some ''de'') = Inr ''Quercus'' \<and>
   get_label (ex_store [(''Acer'', [(''en'', ''Maple'')])]) ''Acer'' (Some ''en'') \<noteq> Inr []"
proof -
  have d: "db (ex_store [(''Acer'', [(''en'', ''Maple'')])]) =
           Some \<lparr>info = ex_info, labels = [(''Acer'', [(''en'', ''Maple'')])], models = []\<rparr>"
    by (simp add: ex_store_def)
  show ?thesis
    using get_label_total [OF d, of "''Quercus''" "Some ''de''"]
      get_label_total [OF d, of "''Acer''" "Some ''en''"]
    by simp
qed

text \<open>
  C6 as stated fails: an empty key without an entry, and a stored empty display string,
  both resolve to the empty string; and on an object whose document was never set
  \<open>get_label\<close> raises AttributeError.
\<close>

theorem get_label_empty_counterexample:
  "get_label (ex_store []) [] (Some ''en'') = Inr [] \<and>
   get_label (ex_store [(''Acer'', [(''en'', [])])]) ''Acer'' (Some ''en'') = Inr [] \<and>
   get_label ex_unset ''Acer'' (Some ''en'') = Inl AttributeError"
  by (simp add: get_label_def ex_store_def ex_unset_def dict_get_def dict_in_def
      replace_underscore_def)

lemma map_of_dict_update:
  "distinct (map fst other) \<Longrightarrow>
   map_of (dict_update d other) k = (case map_of other k of Some v \<Rightarrow> Some v | None \<Rightarrow> map_of d k)"
proof (induction other arbitrary: d)
  case Nil
  then show ?case by (simp add: dict_update_def)
next
  case (Cons p other)
  obtain a b where p: "p = (a, b)" by (cases p)
  have step: "dict_update d ((a, b) # other) = dict_update (AList.update a b d) other"
    by (simp add: dict_update_def dict_set_def)
  from Cons.prems p have nin: "map_of other a = None" and dist: "distinct (map fst other)"
    by (auto simp: map_of_eq_None_iff)
  show ?case
    using Cons.IH [OF dist, of "dict_set a b d"] nin
    by (auto simp: step p dict_set_def update_conv' split: option.splits)
qed

lemma add_model_raises: "\<exists>e. add_model m_rec self = Inl e"
  by (simp add: add_model_def split: option.splits)

subsection \<open>Merging labels\<close>

text \<open>
  C3, as amended. \<open>update_labels\<close>, the merge step of \<open>build\<close>, is a union per entity
  key, not per (key, locale) pair: for a key of the incoming mapping the stored locale
  table is replaced by the incoming one as a whole, and the entries of every other key
  are kept. The \<open>info\<close> block and the models are untouched. (\<open>add_model\<close> raises before
  it reaches the merge, see \<open>add_model_raises\<close>.)
\<close>

theorem update_labels_per_key:
  assumes "db self = Some d" and "distinct (map fst new_labels)"
  shows "\<exists>d'. update_labels new_labels self = Inr (self\<lparr>db := Some d'\<rparr>) \<and>
              info d' = info d \<and> models d' = models d \<and>
              (\<forall>key l. label_entry (labels d') key l =
                 (if dict_in key new_labels then label_entry new_labels key l
                  else label_entry (labels d) key l))"
  using assms
  by (auto simp: update_labels_def label_entry_def map_of_dict_update dict_in_map_of
      split: option.splits)

theorem update_labels_per_key_witness:
  "update_labels [(''Quercus'', [(''de'', ''Eiche'')])] (ex_store [(''Acer'', [(''en'', ''Maple'')])]) =
     Inr (ex_store [(''Acer'', [(''en'', ''Maple'')]), (''Quercus'', [(''de'', ''Eiche'')])])"
  using update_labels_per_key [of "ex_store [(''Acer'', [(''en'', ''Maple'')])]"
     "\<lparr>info = ex_info, labels = [(''Acer'', [(''en'', ''Maple'')])], models = []\<rparr>"
     "[(''Quercus'', [(''de'', ''Eiche'')])]"]
  by (simp add: ex_store_def update_labels_def dict_update_def dict_set_def)

text \<open>
  C3 as stated fails: the stored entry (Acer, en) is not in the incoming mapping, which
  has the key Acer with the locale de only; after the merge (Acer, en) is gone.
\<close>

theorem update_labels_union_counterexample:
  "update_labels [(''Acer'', [(''de'', ''Ahorn'')])] (ex_store [(''Acer'', [(''en'', ''Maple'')])]) =
     Inr (ex_store [(''Acer'', [(''de'', ''Ahorn'')])]) \<and>
   label_entry [(''Acer'', [(''en'', ''Maple'')])] ''Acer'' ''en'' = Some ''Maple'' \<and>
   label_entry [(''Acer'', [(''de'', ''Ahorn'')])] ''Acer'' ''en'' = None"
  by (simp add: ex_store_def update_labels_def dict_update_def dict_set_def label_entry_def)

subsection \<open>Opening and saving\<close>

lemma init_schema_ok:
  "ThicketDB_init json_load json_dump lbw filename locale_arg python_arg create w = (Inr self, w') \<Longrightarrow>
   db self = Some d \<Longrightarrow> SCHEMA_VERSION \<le> schema_version (info d)"
  by (auto simp: ThicketDB_init_def initialize_def save_def Let_def
      split: option.splits if_splits decoded.splits dump_result.splits)

lemma update_labels_info:
  "update_labels new_labels self = Inr self' \<Longrightarrow> db self = Some d \<Longrightarrow>
   \<exists>d'. db self' = Some d' \<and> info d' = info d"
  by (auto simp: update_labels_def)

text \<open>
  C4, as amended. Loading a document that decodes is refused with
  ThicketDBOldSchemaError (after a warning is logged) exactly when its schema version is
  below \<open>SCHEMA_VERSION\<close>; a document whose schema version is equal to or above the
  constant is accepted and becomes the object's document.
\<close>

theorem init_schema_guard:
  assumes "files w filename = Some bytes" and "json_load bytes = Value d"
  shows "ThicketDB_init json_load json_dump lbw filename locale_arg python_arg create w =
           (if schema_version (info d) < SCHEMA_VERSION
            then (Inl ThicketDBOldSchemaError, logger WARNING Unknown_database_schema_version w)
            else (Inr \<lparr>db_filename = filename, loc = replace_underscore locale_arg,
                       python = python_arg, db = Some d\<rparr>, w))"
  using assms by (simp add: ThicketDB_init_def Let_def)

theorem init_schema_guard_witness:
  "fst (ThicketDB_init ex_json_load ex_json_dump ex_lbw ''thicket.db'' ''en_US'' ''python3'' False
          (ex_world ''schema 1'')) = Inl ThicketDBOldSchemaError"
  using init_schema_guard [of "ex_world ''schema 1''" "''thicket.db''" "''schema 1''" ex_json_load
      "ex_doc 1" ex_json_dump ex_lbw "''en_US''" "''python3''" False]
  by (simp add: ex_world_def ex_json_load_def ex_doc_def SCHEMA_VERSION_def)

text \<open>
  C4 as stated fails: a document of schema version 3, which differs from the constant 2,
  is accepted.
\<close>

theorem init_newer_schema_counterexample:
  "schema_version (info (ex_doc 3)) \<noteq> SCHEMA_VERSION \<and>
   ex_json_load ''schema 3'' = Value (ex_doc 3) \<and>
   ThicketDB_init ex_json_load ex_json_dump ex_lbw ''thicket.db'' ''en_US'' ''python3'' False
     (ex_world ''schema 3'') =
     (Inr \<lparr>db_filename = ''thicket.db'', loc = ''en-US'', python = ''python3'', db = Some (ex_doc 3)\<rparr>,
      ex_world ''schema 3'')"
  by (simp add: ThicketDB_init_def ex_world_def ex_json_load_def ex_doc_def SCHEMA_VERSION_def
      replace_underscore_def Let_def)

text \<open>
  C7, as amended. Opening a database whose bytes are UTF-8 text that is not JSON does
  not fail: the constructor logs the decode error at level CRITICAL and returns the
  object, whose document is unset. Opening a database whose bytes are not UTF-8 fails:
  UnicodeDecodeError reaches the caller, and nothing is logged.
\<close>

theorem init_corrupt:
  assumes "files w filename = Some bytes"
  shows "(json_load bytes = Raises_JSONDecodeError \<longrightarrow>
            ThicketDB_init json_load json_dump lbw filename locale_arg python_arg create w =
              (Inr \<lparr>db_filename = filename, loc = replace_underscore locale_arg,
                     python = python_arg, db = None\<rparr>,
               logger CRITICAL JSONDecodeError_while_loading_database w)) \<and>
         (json_load bytes = Raises_UnicodeDecodeError \<longrightarrow>
            ThicketDB_init json_load json_dump lbw filename locale_arg python_arg create w =
              (Inl UnicodeDecodeError, w))"
  using assms by (simp add: ThicketDB_init_def Let_def)

theorem init_corrupt_witness:
  "ThicketDB_init ex_json_load ex_json_dump ex_lbw ''thicket.db'' ''en_US'' ''python3'' False
     (ex_world ''{ not json'') =
   (Inr ex_unset, logger CRITICAL JSONDecodeError_while_loading_database (ex_world ''{ not json'')) \<and>
   ThicketDB_init ex_json_load ex_json_dump ex_lbw ''thicket.db'' ''en_US'' ''python3'' False
     (ex_world [CHR 0xFF, CHR 0xFE, CHR ''{'']) =
   (Inl UnicodeDecodeError, ex_world [CHR 0xFF, CHR 0xFE, CHR ''{''])"
  using init_corrupt [of "ex_world ''{ not json''" "''thicket.db''" "''{ not json''" ex_json_load
      ex_json_dump ex_lbw "''en_US''" "''python3''" False]
    init_corrupt [of "ex_world [CHR 0xFF, CHR 0xFE, CHR ''{'']" "''thicket.db''"
      "[CHR 0xFF, CHR 0xFE, CHR ''{'']" ex_json_load ex_json_dump ex_lbw "''en_US''" "''python3''" False]
  by (simp add: ex_world_def ex_json_load_def ex_unset_def replace_underscore_def)

text \<open>
  C7 as stated fails: on a file whose text is not JSON the constructor returns an object
  (\<open>Inr\<close>), no error reaches the caller.
\<close>

theorem init_corrupt_counterexample:
  "ex_json_load ''{ not json'' = Raises_JSONDecodeError \<and>
   fst (ThicketDB_init ex_json_load ex_json_dump ex_lbw ''thicket.db'' ''en_US'' ''python3'' False
          (ex_world ''{ not json'')) = Inr ex_unset"
  by (simp add: ThicketDB_init_def ex_world_def ex_json_load_def ex_unset_def
      replace_underscore_def Let_def)





subsection \<open>Views\<close>

lemma get_label_returns: "db self = Some d \<Longrightarrow> \<exists>s. get_label self key la = Inr s"
  by (auto simp: get_label_def dict_get_def Let_def split: option.splits)

lemma map_r_returns: "(\<And>x. x \<in> set xs \<Longrightarrow> \<exists>y. g x = Inr y) \<Longrightarrow> \<exists>ys. map_r g xs = Inr ys"
proof (induction xs)
  case Nil
  then show ?case by simp
next
  case (Cons x xs)
  then obtain y where y: "g x = Inr y" by auto
  from Cons obtain ys where ys: "map_r g xs = Inr ys" by auto
  show ?case by (simp add: y ys)
qed

lemma DBSeason_returns: "db self = Some d \<Longrightarrow> \<exists>v. DBSeason self name = Inr v"
  using get_label_returns [of self d name None] by (auto simp: DBSeason_def)

lemma DBVariant_returns: 
  assumes "db self = Some d" shows "\<exists>v. DBVariant self name v_rec p = Inr v"
proof -
  obtain l where l: "get_label self name None = Inr l"
    using get_label_returns [OF assms] by blast
  obtain ss where ss: "map_r (DBSeason self) (v_seasons v_rec) = Inr ss"
    using map_r_returns [of "v_seasons v_rec" "DBSeason self"] DBSeason_returns [OF assms] by blast
  obtain ds where ds: "DBSeason self (v_default_season v_rec) = Inr ds"
    using DBSeason_returns [OF assms] by blast
  show ?thesis by (simp add: DBVariant_def l ss ds)
qed

lemma DBModel_variants_return:
  assumes "db self = Some d"
  shows "\<exists>vs. map_r (\<lambda>v. bind_r (dict_get vars v) (\<lambda>v_rec. DBVariant self v v_rec p)) (map fst vars) = Inr vs"
proof (rule map_r_returns)
  fix x assume "x \<in> set (map fst vars)"
  then obtain r where r: "map_of vars x = Some r"
    by (metis map_of_eq_None_iff not_Some_eq set_map)
  obtain v where "DBVariant self x r p = Inr v" using DBVariant_returns [OF assms] by blast
  then show "\<exists>y. bind_r (dict_get vars x) (\<lambda>v_rec. DBVariant self x v_rec p) = Inr y"
    by (simp add: dict_get_def r)
qed

text \<open>
  C10. For a model stored under \<open>name\<close> in the document of an object, constructing the
  view returns a view when the record's default variant is a key of its variants (the
  fields of a variant record are there by the record's type), and raises KeyError when it
  is not; \<open>get_model\<close> called with the (non-empty) name of such a model then raises
  KeyError too, rather than returning a view or \<open>None\<close>.
\<close>

theorem DBModel_default_variant:
  assumes "db self = Some d" and "map_of (models d) name = Some m_rec"
  shows "(dict_in (m_default_variant m_rec) (m_variants m_rec) \<longrightarrow> (\<exists>v. DBModel self name = Inr v)) \<and>
         (\<not> dict_in (m_default_variant m_rec) (m_variants m_rec) \<longrightarrow>
            DBModel self name = Inl KeyError \<and>
            (name \<noteq> [] \<longrightarrow> get_model self filepath (Some name) = Inl KeyError))"
proof -
  obtain l where l: "get_label self name None = Inr l"
    using get_label_returns [OF assms(1)] by blast
  obtain vs where vs: "map_r (\<lambda>v. bind_r (dict_get (m_variants m_rec) v)
        (\<lambda>v_rec. DBVariant self v v_rec (m_preview m_rec))) (map fst (m_variants m_rec)) = Inr vs"
    using DBModel_variants_return [OF assms(1)] by blast
  have m: "dict_get (models d) name = Inr m_rec" by (simp add: dict_get_def assms(2))
  have pos: "\<exists>v. DBModel self name = Inr v" if "dict_in (m_default_variant m_rec) (m_variants m_rec)"
  proof -
    from that obtain r where r: "map_of (m_variants m_rec) (m_default_variant m_rec) = Some r"
      by (auto simp: dict_in_map_of)
    obtain dv where dv: "DBVariant self (m_default_variant m_rec) r (m_preview m_rec) = Inr dv"
      using DBVariant_returns [OF assms(1)] by blast
    have dg: "dict_get (m_variants m_rec) (m_default_variant m_rec) = Inr r"
      by (simp add: dict_get_def r)
    show ?thesis by (simp add: DBModel_def assms(1) m l vs dg dv)
  qed
  have neg: "DBModel self name = Inl KeyError" if "\<not> dict_in (m_default_variant m_rec) (m_variants m_rec)"
  proof -
    from that have r: "map_of (m_variants m_rec) (m_default_variant m_rec) = None"
      by (simp add: dict_in_map_of)
    have dg: "dict_get (m_variants m_rec) (m_default_variant m_rec) = Inl KeyError"
      by (simp add: dict_get_def r)
    show ?thesis by (simp add: DBModel_def assms(1) m l vs dg)
  qed
  have inm: "dict_in name (models d)" by (simp add: dict_in_map_of assms(2))
  have gm: "get_model self filepath (Some name) = Inl KeyError"
    if "\<not> dict_in (m_default_variant m_rec) (m_variants m_rec)" and "name \<noteq> []"
    using that neg by (simp add: get_model_def assms(1) inm Let_def)
  from pos neg gm show ?thesis by blast
qed

theorem DBModel_default_variant_witness:
  "(\<exists>v. DBModel (ex_model_store (ex_model ''Acer'' ''young'')) ''Acer'' = Inr v) \<and>
   DBModel (ex_model_store (ex_model ''Acer'' ''old'')) ''Acer'' = Inl KeyError \<and>
   get_model (ex_model_store (ex_model ''Acer'' ''old'')) None (Some ''Acer'') = Inl KeyError"
  using DBModel_default_variant [of "ex_model_store (ex_model ''Acer'' ''young'')"
      "\<lparr>info = ex_info, labels = [], models = [(''Acer'', ex_model ''Acer'' ''young'')]\<rparr>"
      "''Acer''" "ex_model ''Acer'' ''young''" None]
    DBModel_default_variant [of "ex_model_store (ex_model ''Acer'' ''old'')"
      "\<lparr>info = ex_info, labels = [], models = [(''Acer'', ex_model ''Acer'' ''old'')]\<rparr>"
      "''Acer''" "ex_model ''Acer'' ''old''" None]
  by (simp add: ex_model_store_def ex_model_def dict_in_def)

subsection \<open>The scheduler loop\<close>

lemma top_up_inv:
  "jobs (top_up n s) @ rev (model_files (top_up n s)) = jobs s @ rev (model_files s) \<and>
   self_db (top_up n s) = self_db s \<and>
   files (wrld (top_up n s)) = files (wrld s) \<and>
   ((jobs s \<noteq> [] \<longrightarrow> f_var s \<noteq> None) \<longrightarrow> (jobs (top_up n s) \<noteq> [] \<longrightarrow> f_var (top_up n s) \<noteq> None)) \<and>
   (\<exists>ls. jobs (top_up n s) = jobs s @ ls \<and>
         procs (wrld (top_up n s)) = procs (wrld s) @ map Launched ls \<and>
         (ls \<noteq> [] \<longrightarrow> length (jobs s @ ls) \<le> n))"
proof (induction n s rule: top_up.induct)
  case (1 n s)
  show ?case
  proof (cases "length (jobs s) < n \<and> model_files s \<noteq> []")
    case False
    then show ?thesis by (simp add: top_up_stop)
  next
    case True
    define s' where "s' = s\<lparr>model_files := butlast (model_files s),
                 f_var := Some (last (model_files s)),
                 wrld := (logger DEBUG (Parsing (last (model_files s))) (wrld s))
                           \<lparr>procs := procs (wrld s) @ [Launched (last (model_files s))]\<rparr>,
                 jobs := jobs s @ [last (model_files s)]\<rparr>"
    have c: "length (jobs s) < n \<and> 0 < length (model_files s)" using True by simp
    have st: "top_up n s = top_up n s'" using True by (simp add: top_up_step s'_def)
    have ih: "jobs (top_up n s') @ rev (model_files (top_up n s')) = jobs s' @ rev (model_files s') \<and>
   self_db (top_up n s') = self_db s' \<and>
   files (wrld (top_up n s')) = files (wrld s') \<and>
   ((jobs s' \<noteq> [] \<longrightarrow> f_var s' \<noteq> None) \<longrightarrow> (jobs (top_up n s') \<noteq> [] \<longrightarrow> f_var (top_up n s') \<noteq> None)) \<and>
   (\<exists>ls. jobs (top_up n s') = jobs s' @ ls \<and>
         procs (wrld (top_up n s')) = procs (wrld s') @ map Launched ls \<and>
         (ls \<noteq> [] \<longrightarrow> length (jobs s' @ ls) \<le> n))"
      using "1.IH" [OF c refl] by (simp add: s'_def)
    then obtain ls where ls: "jobs (top_up n s') = jobs s' @ ls"
         "procs (wrld (top_up n s')) = procs (wrld s') @ map Launched ls"
         "ls \<noteq> [] \<longrightarrow> length (jobs s' @ ls) \<le> n" by blast
    have fl: "rev (model_files s) = last (model_files s) # rev (butlast (model_files s))"
      using True by (cases "model_files s" rule: rev_cases) auto
    have a: "jobs s' @ rev (model_files s') = jobs s @ rev (model_files s)"
      by (simp add: s'_def fl)
    have b: "self_db s' = self_db s" "files (wrld s') = files (wrld s)" "f_var s' \<noteq> None"
      by (simp_all add: s'_def logger_def)
    have e: "jobs (top_up n s') = jobs s @ (last (model_files s) # ls)"
      "procs (wrld (top_up n s')) = procs (wrld s) @ map Launched (last (model_files s) # ls)"
      using ls by (simp_all add: s'_def logger_def)
    have len: "length (jobs s @ (last (model_files s) # ls)) \<le> n"
      using ls(3) True by (cases "ls = []") (simp_all add: s'_def)
    show ?thesis
      unfolding st using ih a b e len by metis
  qed
qed


lemma top_up_nonempty:
  "0 < n \<Longrightarrow> model_files s \<noteq> [] \<or> jobs s \<noteq> [] \<Longrightarrow> jobs (top_up n s) \<noteq> []"
proof (induction n s rule: top_up.induct)
  case (1 n s)
  show ?case
  proof (cases "length (jobs s) < n \<and> model_files s \<noteq> []")
    case False
    with 1(2,3) show ?thesis by (auto simp: top_up_stop)
  next
    case True
    then have c: "length (jobs s) < n \<and> 0 < length (model_files s)" by simp
    show ?thesis using "1.IH" [OF c refl] 1(2) True by (simp add: top_up_step)
  qed
qed

lemma collect_event:
  "\<exists>r s'. collect worker job s = (r, s') \<and>
          procs (wrld s') = procs (wrld s) @ [Collected job] \<and>
          files (wrld s') = files (wrld s) \<and>
          model_files s' = model_files s \<and> jobs s' = jobs s \<and> f_var s' = f_var s \<and>
          db_filename (self_db s') = db_filename (self_db s) \<and>
          (db (self_db s) \<noteq> None \<longrightarrow> db (self_db s') \<noteq> None)"
  by (auto simp: collect_def update_labels_def logger_def Let_def
      split: option.splits decoded.splits m_rec_value.splits)

lemma collect_goes_on:
  assumes "db (self_db s) = Some d" and "f_var s \<noteq> None" and "\<not> aborts (worker job)"
  shows "\<exists>s'. collect worker job s = (Inr (), s') \<and>
              self_db s' = merge_result (self_db s) (worker job)"
  using assms
  by (cases "worker job" rule: aborts.cases)
     (auto simp: collect_def merge_result_def update_labels_def logger_def Let_def)

lemma collect_aborts:
  assumes "db (self_db s) = Some d" and "aborts (worker job)"
  shows "\<exists>e s'. collect worker job s = (Inl e, s')"
  using assms
  by (cases "worker job" rule: aborts.cases) (auto simp: collect_def Let_def)

lemma merge_result_db: "db self \<noteq> None \<Longrightarrow> db (merge_result self r) \<noteq> None"
  by (auto simp: merge_result_def split: option.splits decoded.splits m_rec_value.splits)

lemma replay_launches:
  "length (q @ ls) \<le> n \<Longrightarrow> replay n (q @ ls) es \<Longrightarrow> replay n q (map Launched ls @ es)"
  by (induction ls arbitrary: q) auto

lemma launched_simps:
  "launched [] = []" "launched (Launched f # es) = f # launched es"
  "launched (Collected f # es) = launched es" "launched (xs @ ys) = launched xs @ launched ys"
  "launched (map Launched ls) = ls"
  by (induction ls) (simp_all add: launched_def)

lemma collected_simps:
  "collected [] = []" "collected (Launched f # es) = collected es"
  "collected (Collected f # es) = f # collected es" "collected (xs @ ys) = collected xs @ collected ys"
  "collected (map Launched ls) = []"
  by (induction ls) (simp_all add: collected_def)

lemma build_loop_returns:
  "0 < n \<Longrightarrow> db (self_db s) \<noteq> None \<Longrightarrow> (jobs s \<noteq> [] \<longrightarrow> f_var s \<noteq> None) \<Longrightarrow> length (jobs s) \<le> n \<Longrightarrow>
   \<exists>r s' es. build_loop n worker s = (r, s') \<and>
           procs (wrld s') = procs (wrld s) @ es \<and> files (wrld s') = files (wrld s) \<and>
           db_filename (self_db s') = db_filename (self_db s) \<and> db (self_db s') \<noteq> None \<and>
           replay n (jobs s) es \<and>
           prefix (launched es) (rev (model_files s)) \<and>
           ((\<forall>f \<in> set (jobs s @ model_files s). \<not> aborts (worker f)) \<longrightarrow> r = Inr ()) \<and>
           (r = Inr () \<longrightarrow>
              model_files s' = [] \<and> jobs s' = [] \<and>
              launched es = rev (model_files s) \<and>
              collected es = jobs s @ rev (model_files s) \<and>
              self_db s' = foldl merge_result (self_db s) (map worker (jobs s @ rev (model_files s))))"
proof (induction n worker s rule: build_loop.induct)
  case (1 n worker s)
  show ?case
  proof (cases "length (model_files s) > 0 \<or> length (jobs s) > 0")
    case False
    then show ?thesis using 1(3)
      by (simp add: build_loop.simps launched_simps collected_simps)
  next
    case True
    define s1 where "s1 = top_up n s"
    have ne: "jobs s1 \<noteq> []" using top_up_nonempty [of n s] True 1(2) by (auto simp: s1_def)
    then obtain job rest where jr: "jobs s1 = job # rest" by (cases "jobs s1") auto
    from top_up_inv [of n s] obtain ls where
      inv: "jobs s1 @ rev (model_files s1) = jobs s @ rev (model_files s)"
        "self_db s1 = self_db s" "files (wrld s1) = files (wrld s)"
        "(jobs s \<noteq> [] \<longrightarrow> f_var s \<noteq> None) \<longrightarrow> (jobs s1 \<noteq> [] \<longrightarrow> f_var s1 \<noteq> None)"
        and ls: "jobs s1 = jobs s @ ls" "procs (wrld s1) = procs (wrld s) @ map Launched ls"
        "ls \<noteq> [] \<longrightarrow> length (jobs s @ ls) \<le> n"
      unfolding s1_def by blast
    have fv: "f_var s1 \<noteq> None" using inv(4) 1(4) ne by blast
    obtain d where d: "db (self_db s1) = Some d" using 1(3) inv(2) by auto
    have lenq: "length (jobs s1) \<le> n" using ls 1(5) by (cases "ls = []") auto
    have lrev: "ls @ rev (model_files s1) = rev (model_files s)"
      using inv(1) ls(1) by simp
    have mem: "set (jobs s @ model_files s) = set (jobs s1 @ model_files s1)"
      using inv(1) by (metis set_append set_rev)
    from collect_event [of worker job "s1\<lparr>jobs := rest\<rparr>"] d
    obtain r2 s2 where s2: "collect worker job (s1\<lparr>jobs := rest\<rparr>) = (r2, s2)"
      "procs (wrld s2) = procs (wrld s1) @ [Collected job]"
      "files (wrld s2) = files (wrld s1)"
      "model_files s2 = model_files s1" "jobs s2 = rest" "f_var s2 = f_var s1"
      "db_filename (self_db s2) = db_filename (self_db s1)" "db (self_db s2) \<noteq> None"
      by auto
    let ?es1 = "map Launched ls @ [Collected job]"
    have rp1: "replay n (jobs s) (map Launched ls @ Collected job # es)"
      if "replay n rest es" for es
    proof (rule replay_launches)
      show "length (jobs s @ ls) \<le> n" using lenq ls(1) by simp
      show "replay n (jobs s @ ls) (Collected job # es)"
        using that jr ls(1) by simp
    qed
    show ?thesis
    proof (cases r2)
      case (Inl e)
      have unf: "build_loop n worker s = (Inl e, s2)"
        using True jr s2(1) Inl by (subst build_loop.simps) (simp add: s1_def [symmetric] Let_def)
      have ab: "aborts (worker job)"
        using collect_goes_on [of "s1\<lparr>jobs := rest\<rparr>" d worker job] d fv s2(1) Inl by auto
      have "job \<in> set (jobs s @ model_files s)" using mem jr by simp
      with ab have nall: "\<not> (\<forall>f \<in> set (jobs s @ model_files s). \<not> aborts (worker f))" by blast
      have "procs (wrld s2) = procs (wrld s) @ ?es1" using s2(2) ls(2) by simp
      moreover have "replay n (jobs s) ?es1" using rp1 [of "[]"] by simp
      moreover have "prefix (launched ?es1) (rev (model_files s))"
        using lrev by (simp add: launched_simps) (metis prefixI)
      ultimately show ?thesis
        unfolding unf using s2(3,7,8) inv(2,3) nall by (intro exI [of _ "Inl e"] exI [of _ s2] exI [of _ ?es1]) simp
    next
      case (Inr u)
      have unf: "build_loop n worker s = build_loop n worker s2"
        using True jr s2(1) Inr by (subst build_loop.simps) (simp add: s1_def [symmetric] Let_def)
      have nab: "\<not> aborts (worker job)"
        using collect_aborts [of "s1\<lparr>jobs := rest\<rparr>" d worker job] d s2(1) Inr by auto
      from collect_goes_on [of "s1\<lparr>jobs := rest\<rparr>" d worker job] d fv nab s2(1)
      have eff: "self_db s2 = merge_result (self_db s1) (worker job)" by auto
      have pre: "db (self_db s2) \<noteq> None" "jobs s2 \<noteq> [] \<longrightarrow> f_var s2 \<noteq> None" "length (jobs s2) \<le> n"
        using s2 fv lenq jr by auto
      from "1.IH" [OF True s1_def jr s2(1) [symmetric] Inr 1(2) pre]
      obtain r s' es where r: "build_loop n worker s2 = (r, s')"
        "procs (wrld s') = procs (wrld s2) @ es" "files (wrld s') = files (wrld s2)"
        "db_filename (self_db s') = db_filename (self_db s2)" "db (self_db s') \<noteq> None"
        "replay n (jobs s2) es" "prefix (launched es) (rev (model_files s2))"
        "(\<forall>f \<in> set (jobs s2 @ model_files s2). \<not> aborts (worker f)) \<longrightarrow> r = Inr ()"
        "r = Inr () \<longrightarrow>
              model_files s' = [] \<and> jobs s' = [] \<and>
              launched es = rev (model_files s2) \<and>
              collected es = jobs s2 @ rev (model_files s2) \<and>
              self_db s' = foldl merge_result (self_db s2) (map worker (jobs s2 @ rev (model_files s2)))"
        by blast
      let ?es = "map Launched ls @ Collected job # es"
      have rp: "replay n (jobs s) ?es" using rp1 [of es] r(6) s2(5) by simp
      have pr: "procs (wrld s') = procs (wrld s) @ ?es"
        using r(2) s2(2) ls(2) by simp
      have fi: "files (wrld s') = files (wrld s)" using r(3) s2(3) inv(3) by simp
      have fn: "db_filename (self_db s') = db_filename (self_db s)" using r(4) s2(7) inv(2) by simp
      have px: "prefix (launched ?es) (rev (model_files s))"
        using r(7) s2(4) lrev by (simp add: launched_simps) (metis same_prefix_prefix)
      have all: "(\<forall>f \<in> set (jobs s @ model_files s). \<not> aborts (worker f)) \<longrightarrow> r = Inr ()"
        using r(8) s2(4,5) mem jr by auto
      have fin: "model_files s' = [] \<and> jobs s' = [] \<and>
              launched ?es = rev (model_files s) \<and>
              collected ?es = jobs s @ rev (model_files s) \<and>
              self_db s' = foldl merge_result (self_db s) (map worker (jobs s @ rev (model_files s)))"
        if "r = Inr ()"
      proof -
        from r(9) that have f: "model_files s' = []" "jobs s' = []"
          "launched es = rev (model_files s2)" "collected es = jobs s2 @ rev (model_files s2)"
          "self_db s' = foldl merge_result (self_db s2) (map worker (jobs s2 @ rev (model_files s2)))"
          by auto
        have la: "launched ?es = rev (model_files s)"
          using f(3) s2(4) lrev by (simp add: launched_simps)
        have co: "collected ?es = jobs s @ rev (model_files s)"
          using f(4) s2(4,5) inv(1) jr by (simp add: collected_simps)
        have "jobs s @ rev (model_files s) = job # rest @ rev (model_files s1)"
          using inv(1) jr by simp
        then have dbs: "self_db s' = foldl merge_result (self_db s) (map worker (jobs s @ rev (model_files s)))"
          using f(5) s2(4,5) eff inv(2) by simp
        from f(1,2) la co dbs show ?thesis by blast
      qed
      show ?thesis
        unfolding unf using r(1,5) pr fi fn rp px all fin
        by (intro exI [of _ r] exI [of _ s'] exI [of _ ?es]) blast
    qed
  qed
qed

lemma replay_prefix:
  "replay n q es \<Longrightarrow> length q \<le> n \<Longrightarrow>
   \<exists>q'. q @ launched (take k es) = collected (take k es) @ q' \<and> length q' \<le> n"
proof (induction n q es arbitrary: k rule: replay.induct)
  case (1 n q)
  then show ?case by (simp add: launched_simps collected_simps)
next
  case (2 n q f es)
  show ?case
  proof (cases k)
    case 0
    with 2 show ?thesis by (simp add: launched_simps collected_simps)
  next
    case (Suc k')
    from 2 have "replay n (q @ [f]) es" "length (q @ [f]) \<le> n" by auto
    from "2.IH" [OF this, of k'] show ?thesis
      by (simp add: Suc launched_simps collected_simps)
  qed
next
  case (3 n q f es)
  show ?case
  proof (cases k)
    case 0
    with 3 show ?thesis by (simp add: launched_simps collected_simps)
  next
    case (Suc k')
    from 3(2) obtain rest where q: "q = f # rest" and rp: "replay n rest es"
      by (cases q) auto
    from 3(3) q have "length rest \<le> n" by simp
    from "3.IH" [OF q rp this, of k'] show ?thesis
      by (simp add: Suc q launched_simps collected_simps)
  qed
qed

lemma num_jobs_of_pos: "0 < num_jobs_of c"
  by (simp add: num_jobs_of_def split: option.splits)

lemma merge_result_filename: "db_filename (merge_result self r) = db_filename self"
  by (simp add: merge_result_def split: option.splits decoded.splits m_rec_value.splits)

lemma foldl_merge_result_filename: "db_filename (foldl merge_result self rs) = db_filename self"
  by (induction rs arbitrary: self) (simp_all add: merge_result_filename)

lemma foldl_merge_result_db: "db self \<noteq> None \<Longrightarrow> db (foldl merge_result self rs) \<noteq> None"
proof (induction rs arbitrary: self)
  case Nil
  then show ?case by simp
next
  case (Cons r rs)
  from Cons.IH [OF merge_result_db [OF Cons.prems, of r]] show ?case by simp
qed

lemma build_returns:
  "\<exists>r self' w' es.
     build json_dump lbw fs c worker self w = (r, self', w') \<and>
     procs w' = procs w @ es \<and>
     replay (num_jobs_of c) [] es \<and> prefix (launched es) (rev fs) \<and>
     (r = Inr () \<longrightarrow> launched es = rev fs \<and> collected es = rev fs) \<and>
     ((\<forall>f \<in> set fs. \<not> aborts (worker f)) \<longrightarrow>
        launched es = rev fs \<and> collected es = rev fs \<and>
        self' = foldl merge_result (initialize lbw self) (map worker (rev fs)) \<and>
        (\<exists>d'. db self' = Some d' \<and>
           (case json_dump d' of
              Dumped bytes \<Rightarrow>
                r = Inr () \<and> files w' = (files w)(db_filename self \<mapsto> bytes) \<and>
                last (log w') = (INFO, Processed (length (models d')) (length fs))
            | UnicodeEncodeError_after bytes \<Rightarrow>
                r = Inl UnicodeEncodeError \<and> files w' = (files w)(db_filename self \<mapsto> bytes))))"
proof -
  define s0 where "s0 = \<lparr>self_db = initialize lbw self,
      wrld = logger INFO (Parsing_models (length fs) (num_jobs_of c)) w,
      model_files = fs, jobs = [], f_var = None\<rparr>"
  have pre: "db (self_db s0) \<noteq> None" "jobs s0 \<noteq> [] \<longrightarrow> f_var s0 \<noteq> None" "length (jobs s0) \<le> num_jobs_of c"
    by (simp_all add: s0_def initialize_def)
  from build_loop_returns [OF num_jobs_of_pos pre, of worker]
  obtain r0 s' es where r: "build_loop (num_jobs_of c) worker s0 = (r0, s')"
    "procs (wrld s') = procs (wrld s0) @ es" "files (wrld s') = files (wrld s0)"
    "db_filename (self_db s') = db_filename (self_db s0)" "db (self_db s') \<noteq> None"
    "replay (num_jobs_of c) (jobs s0) es" "prefix (launched es) (rev (model_files s0))"
    "(\<forall>f \<in> set (jobs s0 @ model_files s0). \<not> aborts (worker f)) \<longrightarrow> r0 = Inr ()"
    "r0 = Inr () \<longrightarrow>
       model_files s' = [] \<and> jobs s' = [] \<and>
       launched es = rev (model_files s0) \<and>
       collected es = jobs s0 @ rev (model_files s0) \<and>
       self_db s' = foldl merge_result (self_db s0) (map worker (jobs s0 @ rev (model_files s0)))"
    by blast
  have p0: "procs (wrld s') = procs w @ es" using r(2) by (simp add: s0_def logger_def)
  have f0: "files (wrld s') = files w" using r(3) by (simp add: s0_def logger_def)
  have n0: "db_filename (self_db s') = db_filename self" using r(4) by (simp add: s0_def initialize_def)
  have rp: "replay (num_jobs_of c) [] es" using r(6) by (simp add: s0_def)
  have px: "prefix (launched es) (rev fs)" using r(7) by (simp add: s0_def)
  obtain d' where d': "db (self_db s') = Some d'" using r(5) by auto
  show ?thesis
  proof (cases r0)
    case (Inl e)
    have b: "build json_dump lbw fs c worker self w = (Inl e, self_db s', wrld s')"
      using r(1) Inl by (simp add: build_def s0_def [symmetric] Let_def)
    have "\<not> (\<forall>f \<in> set fs. \<not> aborts (worker f))" using r(8) Inl by (auto simp: s0_def)
    then show ?thesis unfolding b using p0 rp px by auto
  next
    case (Inr u)
    with r(9) have fin: "model_files s' = []" "jobs s' = []" "launched es = rev fs"
      "collected es = rev fs"
      "self_db s' = foldl merge_result (initialize lbw self) (map worker (rev fs))"
      by (simp_all add: s0_def)
    show ?thesis
    proof (cases "json_dump d'")
      case (Dumped bytes)
      have b: "build json_dump lbw fs c worker self w =
         (Inr (), self_db s', logger INFO (Processed (length (models d')) (length fs))
            ((wrld s')\<lparr>files := (files (wrld s'))(db_filename self \<mapsto> bytes)\<rparr>))"
        using r(1) Inr fin(1,2) d' n0 Dumped
        by (simp add: build_def s0_def [symmetric] Let_def save_def model_count_def)
      show ?thesis
        unfolding b using p0 f0 rp px fin(3,4,5) d' Dumped
        by (auto simp: logger_def)
    next
      case (UnicodeEncodeError_after bytes)
      have b: "build json_dump lbw fs c worker self w =
         (Inl UnicodeEncodeError, self_db s',
          (wrld s')\<lparr>files := (files (wrld s'))(db_filename self \<mapsto> bytes)\<rparr>)"
        using r(1) Inr fin(1,2) d' n0 UnicodeEncodeError_after
        by (simp add: build_def s0_def [symmetric] Let_def save_def)
      show ?thesis
        unfolding b using p0 f0 rp px fin(3,4,5) d' UnicodeEncodeError_after
        by auto
    qed
  qed
qed

lemma ex_build_events:
  "build_events ex_json_dump ex_lbw [''a'', ''b'', ''c''] (Some 2) ex_worker ex_unset (ex_world []) =
     [Launched ''c'', Launched ''b'', Collected ''c'', Launched ''a'', Collected ''b'', Collected ''a'']"
  by (simp add: build_events_def build_def build_loop.simps top_up.simps collect_def
      update_labels_def initialize_def save_def model_count_def logger_def num_jobs_of_def
      ex_world_def ex_unset_def ex_worker_def Let_def split: dump_result.splits)

lemma ex_build_events_abort:
  "build_events ex_json_dump ex_lbw [''a'', ''binary'', ''c''] (Some 2) ex_worker ex_unset (ex_world []) =
     [Launched ''c'', Launched ''binary'', Collected ''c'', Launched ''a'', Collected ''binary'']"
  by (simp add: build_events_def build_def build_loop.simps top_up.simps collect_def
      update_labels_def initialize_def save_def model_count_def logger_def num_jobs_of_def
      ex_world_def ex_unset_def ex_worker_def Let_def split: dump_result.splits)

lemma merge_result_models:
  assumes "db self = Some d"
  shows "\<exists>d'. db (merge_result self r) = Some d' \<and>
              set (map fst (models d')) =
                set (map fst (models d)) \<union> (case well_formed_name r of None \<Rightarrow> {} | Some n \<Rightarrow> {n}) \<and>
              (distinct (map fst (models d)) \<longrightarrow> distinct (map fst (models d')))"
  using assms
  by (cases r rule: aborts.cases)
     (auto simp: merge_result_def well_formed_name_def dict_set_def dom_update distinct_update)

lemma foldl_merge_result_models:
  assumes "db self = Some d"
  shows "\<exists>d'. db (foldl merge_result self rs) = Some d' \<and>
              set (map fst (models d')) =
                set (map fst (models d)) \<union> {n. Some n \<in> well_formed_name ` set rs} \<and>
              (distinct (map fst (models d)) \<longrightarrow> distinct (map fst (models d')))"
  using assms
proof (induction rs arbitrary: self d)
  case Nil
  then show ?case by simp
next
  case (Cons r rs)
  from merge_result_models [OF Cons.prems, of r]
  obtain d1 where d1: "db (merge_result self r) = Some d1"
    "set (map fst (models d1)) =
       set (map fst (models d)) \<union> (case well_formed_name r of None \<Rightarrow> {} | Some n \<Rightarrow> {n})"
    "distinct (map fst (models d)) \<longrightarrow> distinct (map fst (models d1))"
    by blast
  from Cons.IH [OF d1(1)]
  obtain d' where d': "db (foldl merge_result (merge_result self r) rs) = Some d'"
    "set (map fst (models d')) = set (map fst (models d1)) \<union> {n. Some n \<in> well_formed_name ` set rs}"
    "distinct (map fst (models d1)) \<longrightarrow> distinct (map fst (models d'))"
    by blast
  have "set (map fst (models d')) =
          set (map fst (models d)) \<union> {n. Some n \<in> well_formed_name ` set (r # rs)}"
    unfolding d'(2) d1(2) by (cases "well_formed_name r") auto
  with d'(1,3) d1(3) show ?case by simp
qed

lemma merge_result_info:
  "db self = Some d \<Longrightarrow> \<exists>d'. db (merge_result self r) = Some d' \<and> info d' = info d"
  by (auto simp: merge_result_def split: option.splits decoded.splits m_rec_value.splits)

lemma foldl_merge_result_info:
  "db self = Some d \<Longrightarrow> \<exists>d'. db (foldl merge_result self rs) = Some d' \<and> info d' = info d"
proof (induction rs arbitrary: self d)
  case Nil
  then show ?case by simp
next
  case (Cons r rs)
  from merge_result_info [OF Cons.prems, of r]
  obtain d1 where "db (merge_result self r) = Some d1" "info d1 = info d" by blast
  with Cons.IH [of "merge_result self r" d1] show ?case by auto
qed

lemma build_schema_version:
  assumes "\<forall>f \<in> set fs. \<not> aborts (worker f)"
    and "build json_dump lbw fs c worker self w = (r, self', w')"
  shows "\<exists>d'. db self' = Some d' \<and> schema_version (info d') = SCHEMA_VERSION"
proof -
  from build_returns [of json_dump lbw fs c worker self w] assms
  have s: "self' = foldl merge_result (initialize lbw self) (map worker (rev fs))" by auto
  have "db (initialize lbw self) =
             Some \<lparr>info = \<lparr>sdk_version = lbw_version lbw, sdk_major = lbw_major lbw,
                             sdk_minor = lbw_minor lbw, sdk_micro = lbw_micro lbw,
                             schema_version = SCHEMA_VERSION\<rparr>, labels = [], models = []\<rparr>"
    by (simp add: initialize_def)
  from foldl_merge_result_info [OF this, of "map worker (rev fs)"] show ?thesis
    unfolding s by auto
qed

subsection \<open>build\<close>

text \<open>
  C1. Take the process events of one \<open>build\<close> over the files \<open>fs\<close>, with the worker cap
  \<open>cpu_count\<close>, or 4 when \<^verbatim>\<open>os.cpu_count()\<close> gives nothing. After any number \<open>k\<close> of
  these events, the number of jobs launched and not yet collected is at most the cap, and
  the jobs collected so far are the first of the jobs launched so far, in launch order:
  each collect waits for the oldest job in flight. This holds of a run that an
  exception ends as well. When \<open>build\<close> returns, or no worker output makes \<open>collect\<close>
  raise, every launched job has been collected, in launch order.
\<close>

theorem build_bounded_fifo:
  "in_flight (take k (build_events json_dump lbw fs c worker self w))
     \<le> (case c of None \<Rightarrow> 4 | Some n \<Rightarrow> if n = 0 then 4 else n) \<and>
   prefix (collected (take k (build_events json_dump lbw fs c worker self w)))
          (launched (take k (build_events json_dump lbw fs c worker self w))) \<and>
   (fst (build json_dump lbw fs c worker self w) = Inr () \<or> (\<forall>f \<in> set fs. \<not> aborts (worker f)) \<longrightarrow>
      collected (build_events json_dump lbw fs c worker self w) =
        launched (build_events json_dump lbw fs c worker self w))"
proof -
  from build_returns [of json_dump lbw fs c worker self w]
  obtain r self' w' es where b: "build json_dump lbw fs c worker self w = (r, self', w')"
    "procs w' = procs w @ es" "replay (num_jobs_of c) [] es"
    "r = Inr () \<longrightarrow> launched es = rev fs \<and> collected es = rev fs"
    "(\<forall>f \<in> set fs. \<not> aborts (worker f)) \<longrightarrow> launched es = rev fs \<and> collected es = rev fs"
    by blast
  have ev: "build_events json_dump lbw fs c worker self w = es"
    by (simp add: build_events_def b)
  from replay_prefix [OF b(3), of k]
  obtain q' where q': "launched (take k es) = collected (take k es) @ q'" "length q' \<le> num_jobs_of c"
    by auto
  have "in_flight (take k es) = length q'"
    by (simp add: in_flight_def q'(1))
  moreover have "prefix (collected (take k es)) (launched (take k es))"
    by (simp add: q'(1))
  ultimately show ?thesis
    using q'(2) b(4,5) unfolding ev by (auto simp: num_jobs_of_def b(1))
qed

theorem build_bounded_fifo_witness:
  "in_flight (take 2 [Launched ''c'', Launched ''b'', Collected ''c'', Launched ''a'', Collected ''b'',
                      Collected ''a'']) \<le> 2 \<and>
   prefix (collected (take 3 (build_events ex_json_dump ex_lbw [''a'', ''b'', ''c''] (Some 2) ex_worker
                                ex_unset (ex_world []))))
          (launched (take 3 (build_events ex_json_dump ex_lbw [''a'', ''b'', ''c''] (Some 2) ex_worker
                                ex_unset (ex_world [])))) \<and>
   collected (build_events ex_json_dump ex_lbw [''a'', ''b'', ''c''] (Some 2) ex_worker ex_unset (ex_world []))
     = [''c'', ''b'', ''a''] \<and>
   in_flight (take 4 (build_events ex_json_dump ex_lbw [''a'', ''binary'', ''c''] (Some 2) ex_worker
                        ex_unset (ex_world []))) \<le> 2"
proof -
  have "\<forall>f \<in> set [''a'', ''b'', ''c'']. \<not> aborts (ex_worker f)"
    by (simp add: ex_worker_def)
  then show ?thesis
    using build_bounded_fifo [of 2 ex_json_dump ex_lbw "[''a'', ''b'', ''c'']" "Some 2" ex_worker ex_unset
        "ex_world []"]
      build_bounded_fifo [of 3 ex_json_dump ex_lbw "[''a'', ''b'', ''c'']" "Some 2" ex_worker ex_unset
        "ex_world []"]
      build_bounded_fifo [of 4 ex_json_dump ex_lbw "[''a'', ''binary'', ''c'']" "Some 2" ex_worker ex_unset
        "ex_world []"]
    by (simp add: ex_build_events launched_simps collected_simps del: set_simps)
qed

text \<open>
  C8, as amended. \<open>build\<close> takes the pending files from the end of the list: the files
  launched are the first of the reversed scan result, in that order, and they are all of
  it when \<open>build\<close> returns or no worker output makes \<open>collect\<close> raise. In the latter case
  \<open>build\<close> returns, unless \<open>save\<close> raises UnicodeEncodeError.
\<close>

theorem build_launch_order:
  "prefix (launched (build_events json_dump lbw fs c worker self w)) (rev fs) \<and>
   ((fst (build json_dump lbw fs c worker self w) = Inr () \<or> (\<forall>f \<in> set fs. \<not> aborts (worker f))) \<longrightarrow>
      launched (build_events json_dump lbw fs c worker self w) = rev fs) \<and>
   ((\<forall>f \<in> set fs. \<not> aborts (worker f)) \<longrightarrow>
      fst (build json_dump lbw fs c worker self w) = Inr () \<or>
      fst (build json_dump lbw fs c worker self w) = Inl UnicodeEncodeError)"
proof -
  from build_returns [of json_dump lbw fs c worker self w]
  obtain r self' w' es where b: "build json_dump lbw fs c worker self w = (r, self', w')"
    "procs w' = procs w @ es" "prefix (launched es) (rev fs)"
    "r = Inr () \<longrightarrow> launched es = rev fs \<and> collected es = rev fs"
    "(\<forall>f \<in> set fs. \<not> aborts (worker f)) \<longrightarrow>
        launched es = rev fs \<and>
        (\<exists>d'. db self' = Some d' \<and>
           (case json_dump d' of
              Dumped bytes \<Rightarrow>
                r = Inr () \<and> files w' = (files w)(db_filename self \<mapsto> bytes) \<and>
                last (log w') = (INFO, Processed (length (models d')) (length fs))
            | UnicodeEncodeError_after bytes \<Rightarrow>
                r = Inl UnicodeEncodeError \<and> files w' = (files w)(db_filename self \<mapsto> bytes)))"
    by blast
  have ev: "build_events json_dump lbw fs c worker self w = es"
    by (simp add: build_events_def b)
  have "r = Inr () \<or> r = Inl UnicodeEncodeError" if "\<forall>f \<in> set fs. \<not> aborts (worker f)"
  proof -
    from b(5) that obtain d' where
      "case json_dump d' of
              Dumped bytes \<Rightarrow>
                r = Inr () \<and> files w' = (files w)(db_filename self \<mapsto> bytes) \<and>
                last (log w') = (INFO, Processed (length (models d')) (length fs))
            | UnicodeEncodeError_after bytes \<Rightarrow>
                r = Inl UnicodeEncodeError \<and> files w' = (files w)(db_filename self \<mapsto> bytes)"
      by blast
    then show ?thesis by (cases "json_dump d'") simp_all
  qed
  then show ?thesis
    unfolding ev using b(3,4,5) by (auto simp: b(1))
qed

theorem build_launch_order_witness:
  "launched (build_events ex_json_dump ex_lbw [''a'', ''b'', ''c''] (Some 2) ex_worker ex_unset (ex_world []))
     = [''c'', ''b'', ''a''] \<and>
   prefix (launched (build_events ex_json_dump ex_lbw [''a'', ''binary'', ''c''] (Some 2) ex_worker ex_unset
                       (ex_world [])))
          [''c'', ''binary'', ''a'']"
proof -
  have "\<forall>f \<in> set [''a'', ''b'', ''c'']. \<not> aborts (ex_worker f)"
    by (simp add: ex_worker_def)
  then show ?thesis
    using build_launch_order [of ex_json_dump ex_lbw "[''a'', ''b'', ''c'']" "Some 2" ex_worker ex_unset
        "ex_world []"]
      build_launch_order [of ex_json_dump ex_lbw "[''a'', ''binary'', ''c'']" "Some 2" ex_worker ex_unset
        "ex_world []"]
    by (simp del: set_simps)
qed

text \<open>
  C8 as stated fails: with the scan result \<open>[a, b]\<close> and one worker slot the first file
  launched is \<open>b\<close>, the last one listed.
\<close>

theorem build_launch_fifo_counterexample:
  "launched (build_events ex_json_dump ex_lbw [''a'', ''b''] (Some 1) ex_worker ex_unset (ex_world []))
     = [''b'', ''a'']"
  by (simp add: build_events_def build_def build_loop.simps top_up.simps collect_def
      update_labels_def initialize_def save_def model_count_def logger_def num_jobs_of_def
      ex_world_def ex_unset_def ex_worker_def Let_def launched_def split: dump_result.splits)

text \<open>
  C2, as amended. Let the scan list \<open>M\<close> distinct files, let the output of exactly one
  of them, \<open>bad\<close>, be UTF-8 text that is not JSON (\<^verbatim>\<open>json.loads\<close> raises
  JSONDecodeError), and let the other \<open>M - 1\<close> outputs be well-formed records with
  pairwise distinct model names. Then the loop collects every job without raising and the
  document holds \<open>M - 1\<close> models. If \<^verbatim>\<open>json.dump\<close> writes that document in full,
  \<open>build\<close> returns, the document is in the database file, and the tally logged last is
  \<open>Processed (M - 1) M\<close>; if it raises UnicodeEncodeError, that exception leaves \<open>build\<close>.
\<close>

theorem build_one_failure:
  assumes "distinct fs" and "bad \<in> set fs" and "worker bad = Raises_JSONDecodeError"
    and "\<forall>f \<in> set fs - {bad}. well_formed_name (worker f) \<noteq> None"
    and "inj_on (\<lambda>f. well_formed_name (worker f)) (set fs - {bad})"
  shows "\<exists>r self' w' d'.
           build json_dump lbw fs c worker self w = (r, self', w') \<and>
           db self' = Some d' \<and>
           length (models d') = length fs - 1 \<and>
           model_count self' = Inr (length fs - 1) \<and>
           collected (build_events json_dump lbw fs c worker self w) = rev fs \<and>
           (case json_dump d' of
              Dumped bytes \<Rightarrow>
                r = Inr () \<and>
                last (log w') = (INFO, Processed (length fs - 1) (length fs)) \<and>
                files w' (db_filename self) = Some bytes
            | UnicodeEncodeError_after bytes \<Rightarrow> r = Inl UnicodeEncodeError)"
proof -
  let ?self = "foldl merge_result (initialize lbw self) (map worker (rev fs))"
  have na: "\<forall>f \<in> set fs. \<not> aborts (worker f)"
  proof
    fix f assume "f \<in> set fs"
    show "\<not> aborts (worker f)"
    proof (cases "f = bad")
      case True
      then show ?thesis by (simp add: assms(3))
    next
      case False
      with \<open>f \<in> set fs\<close> assms(4) have "well_formed_name (worker f) \<noteq> None" by simp
      then show ?thesis by (cases "worker f" rule: aborts.cases) (simp_all add: well_formed_name_def)
    qed
  qed
  from build_returns [of json_dump lbw fs c worker self w] na
  obtain r w' es d' where b: "build json_dump lbw fs c worker self w = (r, ?self, w')"
    "procs w' = procs w @ es" "collected es = rev fs"
    "db ?self = Some d'"
    "case json_dump d' of
              Dumped bytes \<Rightarrow>
                r = Inr () \<and> files w' = (files w)(db_filename self \<mapsto> bytes) \<and>
                last (log w') = (INFO, Processed (length (models d')) (length fs))
            | UnicodeEncodeError_after bytes \<Rightarrow>
                r = Inl UnicodeEncodeError \<and> files w' = (files w)(db_filename self \<mapsto> bytes)"
    by blast
  have ev: "build_events json_dump lbw fs c worker self w = es"
    by (simp add: build_events_def b)
  have i: "db (initialize lbw self) =
             Some \<lparr>info = \<lparr>sdk_version = lbw_version lbw, sdk_major = lbw_major lbw,
                             sdk_minor = lbw_minor lbw, sdk_micro = lbw_micro lbw,
                             schema_version = SCHEMA_VERSION\<rparr>, labels = [], models = []\<rparr>"
    by (simp add: initialize_def)
  from foldl_merge_result_models [OF i, of "map worker (rev fs)"] b(4)
  have keys: "set (map fst (models d')) = {n. Some n \<in> well_formed_name ` set (map worker (rev fs))}"
    and dist: "distinct (map fst (models d'))"
    by auto
  have wb: "well_formed_name (worker bad) = None"
    by (simp add: assms(3) well_formed_name_def)
  have "{n. Some n \<in> well_formed_name ` set (map worker (rev fs))} =
          the ` (\<lambda>f. well_formed_name (worker f)) ` (set fs - {bad})"
  proof (intro set_eqI iffI)
    fix x assume "x \<in> {n. Some n \<in> well_formed_name ` set (map worker (rev fs))}"
    then obtain f where f: "f \<in> set fs" "well_formed_name (worker f) = Some x" by force
    with wb have "f \<noteq> bad" by auto
    with f show "x \<in> the ` (\<lambda>f. well_formed_name (worker f)) ` (set fs - {bad})" by force
  next
    fix x assume "x \<in> the ` (\<lambda>f. well_formed_name (worker f)) ` (set fs - {bad})"
    then obtain f where f: "f \<in> set fs - {bad}" "x = the (well_formed_name (worker f))" by auto
    with assms(4) have "well_formed_name (worker f) = Some x" by auto
    with f show "x \<in> {n. Some n \<in> well_formed_name ` set (map worker (rev fs))}" by force
  qed
  moreover have "inj_on the ((\<lambda>f. well_formed_name (worker f)) ` (set fs - {bad}))"
  proof (rule inj_onI)
    fix x y
    assume "x \<in> (\<lambda>f. well_formed_name (worker f)) ` (set fs - {bad})"
      "y \<in> (\<lambda>f. well_formed_name (worker f)) ` (set fs - {bad})" "the x = the y"
    then obtain f g where fg: "f \<in> set fs - {bad}" "x = well_formed_name (worker f)"
      "g \<in> set fs - {bad}" "y = well_formed_name (worker g)" "the x = the y"
      by blast
    from assms(4) fg(1) have "well_formed_name (worker f) \<noteq> None" by blast
    with fg(2) obtain a where a: "x = Some a" by (metis not_Some_eq)
    from assms(4) fg(3) have "well_formed_name (worker g) \<noteq> None" by blast
    with fg(4) obtain b where b: "y = Some b" by (metis not_Some_eq)
    from a b fg(5) show "x = y" by simp
  qed
  ultimately have "card (set (map fst (models d'))) = card (set fs - {bad})"
    using keys assms(5) by (simp add: card_image)
  also have "\<dots> = length fs - 1"
    using assms(1,2) by (simp add: distinct_card)
  finally have len: "length (models d') = length fs - 1"
    using dist distinct_card [of "map fst (models d')"] by simp
  show ?thesis
    using b len unfolding ev by (auto simp: model_count_def split: dump_result.splits)
qed

theorem build_one_failure_witness:
  "\<exists>self' w' d'.
     build ex_json_dump ex_lbw [''a'', ''bad'', ''c''] (Some 2) ex_worker ex_unset (ex_world []) =
       (Inr (), self', w') \<and>
     db self' = Some d' \<and> length (models d') = 2 \<and> model_count self' = Inr 2 \<and>
     last (log w') = (INFO, Processed 2 3)"
proof -
  have "inj_on (\<lambda>f. well_formed_name (ex_worker f)) (set [''a'', ''bad'', ''c''] - {''bad''})"
    by (auto simp: inj_on_def ex_worker_def ex_model_def well_formed_name_def)
  moreover have "\<forall>f \<in> set [''a'', ''bad'', ''c''] - {''bad''}. well_formed_name (ex_worker f) \<noteq> None"
    by (auto simp: ex_worker_def well_formed_name_def)
  moreover have "distinct [''a'', ''bad'', ''c'']" "''bad'' \<in> set [''a'', ''bad'', ''c'']"
    "ex_worker ''bad'' = Raises_JSONDecodeError"
    by (simp_all add: ex_worker_def)
  ultimately obtain r self' w' d' where
    b: "build ex_json_dump ex_lbw [''a'', ''bad'', ''c''] (Some 2) ex_worker ex_unset (ex_world []) =
          (r, self', w')"
      "db self' = Some d'" "length (models d') = length [''a'', ''bad'', ''c''] - 1"
      "model_count self' = Inr (length [''a'', ''bad'', ''c''] - 1)"
      "case ex_json_dump d' of
              Dumped bytes \<Rightarrow>
                r = Inr () \<and>
                last (log w') = (INFO, Processed (length [''a'', ''bad'', ''c''] - 1) (length [''a'', ''bad'', ''c''])) \<and>
                files w' (db_filename ex_unset) = Some bytes
            | UnicodeEncodeError_after bytes \<Rightarrow> r = Inl UnicodeEncodeError"
    using build_one_failure [of "[''a'', ''bad'', ''c'']" "''bad''" ex_worker ex_json_dump ex_lbw
        "Some 2" ex_unset "ex_world []"]
    by blast
  have r: "fst (build ex_json_dump ex_lbw [''a'', ''bad'', ''c''] (Some 2) ex_worker ex_unset (ex_world [])) = Inr ()"
    by (simp add: build_def build_loop.simps top_up.simps collect_def
      update_labels_def initialize_def save_def model_count_def logger_def num_jobs_of_def
      ex_world_def ex_unset_def ex_worker_def Let_def ex_json_dump_def document_strings_def
      dict_set_def dict_update_def ex_model_def ex_variant_def ex_full_doc_def ex_info_def
      SCHEMA_VERSION_def ex_lbw_def)
  with b(1) have "r = Inr ()" by simp
  with b show ?thesis
    by (cases "ex_json_dump d'") (auto simp: numeral_2_eq_2 numeral_3_eq_3)
qed

text \<open>
  C2 as stated fails: when the one malformed output is not UTF-8, \<^verbatim>\<open>json.loads\<close> raises
  UnicodeDecodeError, which the handler of JSONDecodeError does not catch, and \<open>build\<close>
  aborts.
\<close>

theorem build_abort_counterexample:
  "ex_worker ''binary'' = Raises_UnicodeDecodeError \<and>
   fst (build ex_json_dump ex_lbw [''a'', ''binary'', ''c''] (Some 2) ex_worker ex_unset (ex_world [])) =
     Inl UnicodeDecodeError"
  by (simp add: build_def build_loop.simps top_up.simps collect_def
      update_labels_def initialize_def logger_def num_jobs_of_def
      ex_world_def ex_unset_def ex_worker_def Let_def)

end
